theory Spec2Isabelle
  imports Main
begin

section \<open>Python values, dictionaries and exceptions\<close>

text \<open>
  A Python \<^verbatim>\<open>float\<close> is an IEEE 754 binary64 number: \<open>FFinite s m e\<close> is the number
  \<open>(-1)\<^sup>s * m * 2\<^sup>e\<close>, kept with an odd mantissa \<open>m\<close> (zero is \<open>m = 0\<close>, \<open>e = 0\<close>, with
  its sign), \<open>FInf s\<close> is the infinity of sign \<open>s\<close> and \<open>FNaN\<close> is not-a-number. So
  \<^verbatim>\<open>10.5\<close> is \<open>FFinite False 21 (- 1)\<close> and \<^verbatim>\<open>0.1\<close> is
  \<open>FFinite False 3602879701896397 (- 55)\<close>.
\<close>

datatype float64 = FFinite bool nat int | FInf bool | FNaN

text \<open>The number of binary digits of \<open>n\<close>.\<close>

fun bit_length :: "nat \<Rightarrow> nat" where
  "bit_length n = (if n = 0 then 0 else 1 + bit_length (n div 2))"

declare bit_length.simps [simp del]

text \<open>The representation with an odd mantissa of \<open>m * 2\<^sup>e\<close>.\<close>

fun normal_form :: "bool \<Rightarrow> nat \<Rightarrow> int \<Rightarrow> float64" where
  "normal_form s m e =
     (if m = 0 then FFinite s 0 0
      else if even m then normal_form s (m div 2) (e + 1)
      else FFinite s m e)"

declare normal_form.simps [simp del]

text \<open>
  The binary64 number nearest to \<open>m * 2\<^sup>e\<close>, ties to the even mantissa: 53 significant
  bits, the smallest exponent of the last bit is \<open>-1074\<close> (subnormal numbers), and what
  rounds to \<open>2\<^sup>1\<^sup>0\<^sup>2\<^sup>4\<close> or more is an infinity.
\<close>

definition round_to_double :: "bool \<Rightarrow> nat \<Rightarrow> int \<Rightarrow> float64" where
  "round_to_double s m e =
     (let e' = max (e + int (bit_length m) - 53) (- 1074) in
      if e' \<le> e then
        (if e + int (bit_length m) > 1024 then FInf s else normal_form s m e)
      else
        (let k = nat (e' - e);
             q = m div 2 ^ k;
             r = m mod 2 ^ k;
             half = 2 ^ (k - 1);
             q' = (if r > half \<or> (r = half \<and> odd q) then q + 1 else q)
         in if e' + int (bit_length q') > 1024 then FInf s else normal_form s q' e'))"

fun signed :: "bool \<Rightarrow> nat \<Rightarrow> int" where
  "signed s m = (if s then - int m else int m)"

text \<open>\<^verbatim>\<open>x + y\<close> on two floats: the exact sum, rounded. An exact zero sum is \<^verbatim>\<open>+0.0\<close>
  unless both operands are \<^verbatim>\<open>-0.0\<close>; an overflow is an infinity, not an exception.\<close>

fun fadd :: "float64 \<Rightarrow> float64 \<Rightarrow> float64" where
  "fadd FNaN y = FNaN"
| "fadd x FNaN = FNaN"
| "fadd (FInf s) (FInf t) = (if s = t then FInf s else FNaN)"
| "fadd (FInf s) (FFinite t m e) = FInf s"
| "fadd (FFinite s m e) (FInf t) = FInf t"
| "fadd (FFinite s1 m1 e1) (FFinite s2 m2 e2) =
     (let e = min e1 e2;
          total = signed s1 m1 * 2 ^ nat (e1 - e) + signed s2 m2 * 2 ^ nat (e2 - e)
      in if total = 0 then FFinite (s1 \<and> s2) 0 0
         else round_to_double (total < 0) (nat \<bar>total\<bar>) e)"

text \<open>The conversion of an \<^verbatim>\<open>int\<close> operand of a mixed addition: the nearest float, and
  \<open>None\<close> where Python raises \<^verbatim>\<open>OverflowError\<close> (int too large to convert to float).\<close>

definition float_of_int :: "int \<Rightarrow> float64 option" where
  "float_of_int n =
     (case round_to_double (n < 0) (nat \<bar>n\<bar>) 0 of
        FInf s \<Rightarrow> None
      | x \<Rightarrow> Some x)"

definition float_of_bool :: "bool \<Rightarrow> float64" where
  "float_of_bool b = (if b then FFinite False 1 0 else FFinite False 0 0)"

text \<open>
  The values that flow through \<^verbatim>\<open>servicepytan/data.py\<close>: filter values, JSON records
  returned by the API, and the arguments of the methods. Integers are Python's unbounded
  integers. A dictionary with string keys is an association list in insertion order, as
  Python's \<^verbatim>\<open>dict\<close> keeps it.
\<close>

datatype pyval =
    PNone
  | PBool bool
  | PInt int
  | PFloat float64
  | PStr string
  | PList "pyval list"
  | PDict "(string \<times> pyval) list"

type_synonym dict = "(string \<times> pyval) list"

datatype exc =
    KeyError string
  | TypeError
  | IndexError
  | OverflowError
  | CollaboratorError string

text \<open>The date arguments: ``string or datetime object'' in the docstrings.\<close>

datatype date_arg =
    DateStr string
  | DateObj int int int
  | DateTimeObj int int int int int int

text \<open>\<^verbatim>\<open>d[k] = v\<close>: an existing key keeps its position and takes the new value, a new
  key is appended.\<close>

fun dict_setitem :: "dict \<Rightarrow> string \<Rightarrow> pyval \<Rightarrow> dict" where
  "dict_setitem [] k v = [(k, v)]"
| "dict_setitem ((k', v') # d) k v =
     (if k' = k then (k, v) # d else (k', v') # dict_setitem d k v)"

text \<open>\<^verbatim>\<open>x[k]\<close> with a string key \<open>k\<close>: a dictionary looks the key up and raises
  \<^verbatim>\<open>KeyError\<close> when it is missing; every other value of the model raises
  \<^verbatim>\<open>TypeError\<close> (lists and strings want integer indices, the rest is not
  subscriptable).\<close>

fun py_getitem :: "pyval \<Rightarrow> string \<Rightarrow> exc + pyval" where
  "py_getitem (PDict d) k = (case map_of d k of None \<Rightarrow> Inl (KeyError k) | Some v \<Rightarrow> Inr v)"
| "py_getitem _ k = Inl TypeError"

text \<open>\<^verbatim>\<open>xs[0]\<close> on a list.\<close>

fun py_first :: "pyval list \<Rightarrow> exc + pyval" where
  "py_first [] = Inl IndexError"
| "py_first (x # xs) = Inr x"

text \<open>The elements a \<^verbatim>\<open>for\<close> loop visits: the elements of a list, the keys of a
  dictionary, the characters of a string; the other values are not iterable.\<close>

fun py_iter :: "pyval \<Rightarrow> exc + pyval list" where
  "py_iter (PList xs) = Inr xs"
| "py_iter (PDict d) = Inr (map (\<lambda>kv. PStr (fst kv)) d)"
| "py_iter (PStr s) = Inr (map (\<lambda>c. PStr [c]) s)"
| "py_iter _ = Inl TypeError"

text \<open>\<^verbatim>\<open>a + b\<close> (and \<^verbatim>\<open>a += b\<close> on an immutable \<open>a\<close>): \<^verbatim>\<open>bool\<close> is a subclass
  of \<^verbatim>\<open>int\<close>, and an \<^verbatim>\<open>int\<close> or \<^verbatim>\<open>bool\<close> added to a \<^verbatim>\<open>float\<close> is converted to
  \<^verbatim>\<open>float\<close> first.\<close>

fun py_add :: "pyval \<Rightarrow> pyval \<Rightarrow> exc + pyval" where
  "py_add (PInt a) (PInt b) = Inr (PInt (a + b))"
| "py_add (PInt a) (PBool b) = Inr (PInt (a + (if b then 1 else 0)))"
| "py_add (PBool a) (PInt b) = Inr (PInt ((if a then 1 else 0) + b))"
| "py_add (PBool a) (PBool b) = Inr (PInt ((if a then 1 else 0) + (if b then 1 else 0)))"
| "py_add (PFloat a) (PFloat b) = Inr (PFloat (fadd a b))"
| "py_add (PInt a) (PFloat b) =
     (case float_of_int a of None \<Rightarrow> Inl OverflowError | Some x \<Rightarrow> Inr (PFloat (fadd x b)))"
| "py_add (PFloat a) (PInt b) =
     (case float_of_int b of None \<Rightarrow> Inl OverflowError | Some y \<Rightarrow> Inr (PFloat (fadd a y)))"
| "py_add (PBool a) (PFloat b) = Inr (PFloat (fadd (float_of_bool a) b))"
| "py_add (PFloat a) (PBool b) = Inr (PFloat (fadd a (float_of_bool b)))"
| "py_add (PStr a) (PStr b) = Inr (PStr (a @ b))"
| "py_add (PList a) (PList b) = Inr (PList (a @ b))"
| "py_add _ _ = Inl TypeError"

text \<open>Truth value of \<^verbatim>\<open>if x:\<close>.\<close>

fun truthy :: "pyval \<Rightarrow> bool" where
  "truthy PNone = False"
| "truthy (PBool b) = b"
| "truthy (PInt n) = (n \<noteq> 0)"
| "truthy (PFloat x) = (case x of FFinite s m e \<Rightarrow> m \<noteq> 0 | _ \<Rightarrow> True)"
| "truthy (PStr s) = (s \<noteq> [])"
| "truthy (PList xs) = (xs \<noteq> [])"
| "truthy (PDict d) = (d \<noteq> [])"

text \<open>\<^verbatim>\<open>sep.join(xs)\<close>: every element must be a \<^verbatim>\<open>str\<close>, otherwise
  \<^verbatim>\<open>TypeError\<close>.\<close>

fun is_str :: "pyval \<Rightarrow> bool" where
  "is_str (PStr s) = True"
| "is_str _ = False"

fun str_val :: "pyval \<Rightarrow> string" where
  "str_val (PStr s) = s"
| "str_val _ = []"

fun intercalate :: "string \<Rightarrow> string list \<Rightarrow> string" where
  "intercalate sep [] = []"
| "intercalate sep [x] = x"
| "intercalate sep (x # y # ys) = x @ sep @ intercalate sep (y # ys)"

definition py_join :: "string \<Rightarrow> pyval list \<Rightarrow> exc + pyval" where
  "py_join sep xs =
     (if list_all is_str xs then Inr (PStr (intercalate sep (map str_val xs)))
      else Inl TypeError)"

text \<open>\<^verbatim>\<open>str(x)\<close>, which is also what an f-string field \<^verbatim>\<open>{x}\<close> renders, for the
  scalar values; containers are not rendered by this model.\<close>

definition digit_char :: "nat \<Rightarrow> char" where
  "digit_char n = ''0123456789'' ! n"

fun str_nat :: "nat \<Rightarrow> string" where
  "str_nat n = (if n < 10 then [digit_char n] else str_nat (n div 10) @ [digit_char (n mod 10)])"

declare str_nat.simps [simp del]

fun py_str :: "pyval \<Rightarrow> string option" where
  "py_str (PStr s) = Some s"
| "py_str (PInt n) = Some (if n < 0 then CHR ''-'' # str_nat (nat (- n)) else str_nat (nat n))"
| "py_str (PBool b) = Some (if b then ''True'' else ''False'')"
| "py_str PNone = Some ''None''"
| "py_str _ = None"

text \<open>A parameter with a default value: \<open>None\<close> is the omitted argument.\<close>

fun dflt :: "'a \<Rightarrow> 'a option \<Rightarrow> 'a" where
  "dflt d None = d"
| "dflt d (Some x) = x"

section \<open>The collaborators and the world\<close>

text \<open>
  \<^verbatim>\<open>Endpoint\<close> (\<^verbatim>\<open>servicepytan.requests\<close>), \<^verbatim>\<open>_convert_date_to_api_format\<close>
  (\<^verbatim>\<open>servicepytan._dates\<close>) and \<^verbatim>\<open>get_timezone_by_file\<close> (\<^verbatim>\<open>servicepytan.utils\<close>)
  are imported by \<^verbatim>\<open>data.py\<close> and defined elsewhere. An \<^verbatim>\<open>Endpoint\<close> object is the
  record of its constructor arguments; what its methods answer is a parameter of the
  model, the record \<open>collaborator\<close>. Every collaborator call either returns or raises;
  its answer is determined by its arguments, and it does not write to the dictionaries it
  is given (the contract the specification gives for these operations).
\<close>

record endpoint =
  ep_folder :: string
  ep_endpoint :: string
  ep_version :: pyval
  ep_conn :: pyval

record raw_response =
  content :: pyval

record collaborator =
  get_timezone_by_file :: "pyval \<Rightarrow> exc + string"
  convert_date_to_api_format :: "date_arg \<Rightarrow> string \<Rightarrow> exc + pyval"
  get_all :: "endpoint \<Rightarrow> dict \<Rightarrow> exc + pyval list"
  get_one_raw :: "endpoint \<Rightarrow> pyval \<Rightarrow> exc + raw_response"
  update_one :: "endpoint \<Rightarrow> pyval \<Rightarrow> pyval \<Rightarrow> string \<Rightarrow> exc + pyval"

text \<open>Modelled from the spec: the default of the \<^verbatim>\<open>version\<close> parameter of
  \<^verbatim>\<open>Endpoint\<close>'s constructor, which is declared in \<^verbatim>\<open>servicepytan.requests\<close>; the
  spec gives 2 as the version of every operation that does not choose one.\<close>

definition Endpoint_default_version :: pyval where
  "Endpoint_default_version = PInt 2"

definition Endpoint :: "string \<Rightarrow> string \<Rightarrow> pyval option \<Rightarrow> pyval \<Rightarrow> endpoint" where
  "Endpoint folder endpoint version conn =
     \<lparr>ep_folder = folder, ep_endpoint = endpoint,
      ep_version = dflt Endpoint_default_version version, ep_conn = conn\<rparr>"

text \<open>
  The world a method runs in: the store of the dictionary objects that a caller can
  share with a method (addresses are object identities, \<open>next_addr\<close> is the next free
  one), the collaborator calls issued so far, each with the options as they were when
  the call was made, and the lines printed so far.
\<close>

type_synonym addr = nat

datatype call =
    GetAll endpoint dict
  | GetOneRaw endpoint pyval
  | Update endpoint pyval pyval string

record world =
  heap :: "addr \<Rightarrow> dict"
  next_addr :: addr
  calls :: "call list"
  stdout :: "string list"

text \<open>A method is a function from the world to a result, returned or raised, and the
  world after it.\<close>

type_synonym 'a prog = "world \<Rightarrow> (exc + 'a) \<times> world"

definition ret :: "'a \<Rightarrow> 'a prog" where
  "ret x w = (Inr x, w)"

definition lift :: "exc + 'a \<Rightarrow> 'a prog" where
  "lift r w = (r, w)"

definition bind :: "'a prog \<Rightarrow> ('a \<Rightarrow> 'b prog) \<Rightarrow> 'b prog" where
  "bind m f w = (case m w of (Inl e, w') \<Rightarrow> (Inl e, w') | (Inr x, w') \<Rightarrow> f x w')"

definition print :: "string \<Rightarrow> unit prog" where
  "print line w = (Inr (), w\<lparr>stdout := stdout w @ [line]\<rparr>)"

definition new_dict :: "dict \<Rightarrow> addr prog" where
  "new_dict d w = (Inr (next_addr w), w\<lparr>heap := (heap w)(next_addr w := d), next_addr := Suc (next_addr w)\<rparr>)"

definition read_dict :: "addr \<Rightarrow> dict prog" where
  "read_dict a w = (Inr (heap w a), w)"

definition store_setitem :: "addr \<Rightarrow> string \<Rightarrow> pyval \<Rightarrow> unit prog" where
  "store_setitem a k v w = (Inr (), w\<lparr>heap := (heap w)(a := dict_setitem (heap w a) k v)\<rparr>)"

text \<open>The three methods of an \<^verbatim>\<open>Endpoint\<close> that \<^verbatim>\<open>data.py\<close> calls. Each call is
  recorded, then answered by the collaborator.\<close>

definition Endpoint_get_all :: "collaborator \<Rightarrow> endpoint \<Rightarrow> dict \<Rightarrow> pyval list prog" where
  "Endpoint_get_all C ep options w = (get_all C ep options, w\<lparr>calls := calls w @ [GetAll ep options]\<rparr>)"

definition Endpoint_get_one_raw :: "collaborator \<Rightarrow> endpoint \<Rightarrow> pyval \<Rightarrow> raw_response prog" where
  "Endpoint_get_one_raw C ep i w = (get_one_raw C ep i, w\<lparr>calls := calls w @ [GetOneRaw ep i]\<rparr>)"

definition Endpoint_update :: "collaborator \<Rightarrow> endpoint \<Rightarrow> pyval \<Rightarrow> pyval \<Rightarrow> string \<Rightarrow> pyval prog" where
  "Endpoint_update C ep i payload request_type w =
     (update_one C ep i payload request_type, w\<lparr>calls := calls w @ [Update ep i payload request_type]\<rparr>)"

section \<open>DataService\<close>

record DataService =
  conn :: pyval
  timezone :: string

definition DataService_init :: "collaborator \<Rightarrow> pyval \<Rightarrow> exc + DataService" where
  "DataService_init C c =
     (case get_timezone_by_file C c of
        Inl e \<Rightarrow> Inl e
      | Inr tz \<Rightarrow> Inr \<lparr>conn = c, timezone = tz\<rparr>)"

definition convert_date :: "collaborator \<Rightarrow> DataService \<Rightarrow> date_arg \<Rightarrow> pyval prog" where
  "convert_date C self d = lift (convert_date_to_api_format C d (timezone self))"

definition get_api_data ::
  "collaborator \<Rightarrow> DataService \<Rightarrow> string \<Rightarrow> string \<Rightarrow> addr option \<Rightarrow> pyval option \<Rightarrow> pyval list prog" where
  "get_api_data C self folder endpoint options version_arg =
     (let version = dflt (PInt 2) version_arg in
      case options of
        None \<Rightarrow>
          bind (print (''WARNING: You have not put any options in so this will call EVERYTHING! Endpoint: ''
                        @ folder @ '', '' @ endpoint))
            (\<lambda>_. Endpoint_get_all C (Endpoint folder endpoint (Some version) (conn self)) [])
      | Some a \<Rightarrow>
          bind (read_dict a)
            (\<lambda>d. Endpoint_get_all C (Endpoint folder endpoint (Some version) (conn self)) d))"

definition get_api_data_between ::
  "collaborator \<Rightarrow> DataService \<Rightarrow> string \<Rightarrow> string \<Rightarrow> date_arg \<Rightarrow> date_arg \<Rightarrow> string option
     \<Rightarrow> addr option \<Rightarrow> pyval option \<Rightarrow> pyval list prog" where
  "get_api_data_between C self folder endpoint start_date end_date modifier_arg options version_arg =
     (let date_filter_modifier = dflt ''completed'' modifier_arg;
          version = dflt (PInt 2) version_arg in
      bind (case options of None \<Rightarrow> new_dict [] | Some a \<Rightarrow> ret a)
        (\<lambda>a. bind (convert_date C self start_date)
        (\<lambda>lo. bind (store_setitem a (date_filter_modifier @ ''OnOrAfter'') lo)
        (\<lambda>_. bind (convert_date C self end_date)
        (\<lambda>hi. bind (store_setitem a (date_filter_modifier @ ''Before'') hi)
        (\<lambda>_. get_api_data C self folder endpoint (Some a) (Some version)))))))"

text \<open>The body of the \<^verbatim>\<open>for status in job_status\<close> loop of
  \<^verbatim>\<open>get_jobs_completed_between\<close>; \<open>data\<close> is the list built so far.\<close>

fun jobs_completed_loop ::
  "collaborator \<Rightarrow> DataService \<Rightarrow> date_arg \<Rightarrow> date_arg \<Rightarrow> pyval \<Rightarrow> pyval list \<Rightarrow> pyval list
     \<Rightarrow> pyval list prog" where
  "jobs_completed_loop C self start_date end_date app_guid [] data = ret data"
| "jobs_completed_loop C self start_date end_date app_guid (status # rest) data =
     bind (convert_date C self start_date)
       (\<lambda>lo. bind (convert_date C self end_date)
       (\<lambda>hi. let options = [(''jobStatus'', status), (''completedOnOrAfter'', lo), (''completedBefore'', hi)];
                 options = (if truthy app_guid
                            then dict_setitem options ''externalDataApplicationGuid'' app_guid
                            else options)
             in bind (Endpoint_get_all C (Endpoint ''jpm'' ''jobs'' None (conn self)) options)
                  (\<lambda>page. jobs_completed_loop C self start_date end_date app_guid rest (data @ page))))"

definition get_jobs_completed_between ::
  "collaborator \<Rightarrow> DataService \<Rightarrow> date_arg \<Rightarrow> date_arg \<Rightarrow> pyval list option \<Rightarrow> pyval
     \<Rightarrow> pyval list prog" where
  "get_jobs_completed_between C self start_date end_date job_status_arg app_guid =
     (let job_status = dflt [PStr ''Completed'', PStr ''Scheduled'', PStr ''InProgress'', PStr ''Dispatched'']
                         job_status_arg
      in jobs_completed_loop C self start_date end_date app_guid job_status [])"

definition get_jobs_created_between ::
  "collaborator \<Rightarrow> DataService \<Rightarrow> date_arg \<Rightarrow> date_arg \<Rightarrow> pyval \<Rightarrow> pyval list prog" where
  "get_jobs_created_between C self start_date end_date app_guid =
     bind (convert_date C self start_date)
       (\<lambda>lo. bind (convert_date C self end_date)
       (\<lambda>hi. let options = [(''createdOnOrAfter'', lo), (''createdBefore'', hi)];
                 options = (if truthy app_guid
                            then dict_setitem options ''externalDataApplicationGuid'' app_guid
                            else options)
             in Endpoint_get_all C (Endpoint ''jpm'' ''jobs'' None (conn self)) options))"

fun appointments_loop ::
  "collaborator \<Rightarrow> DataService \<Rightarrow> date_arg \<Rightarrow> date_arg \<Rightarrow> pyval list \<Rightarrow> pyval list
     \<Rightarrow> pyval list prog" where
  "appointments_loop C self start_date end_date [] data = ret data"
| "appointments_loop C self start_date end_date (status # rest) data =
     bind (convert_date C self start_date)
       (\<lambda>lo. bind (convert_date C self end_date)
       (\<lambda>hi. let options = [(''status'', status), (''startsOnOrAfter'', lo), (''startsBefore'', hi)]
             in bind (Endpoint_get_all C (Endpoint ''jpm'' ''appointments'' None (conn self)) options)
                  (\<lambda>page. appointments_loop C self start_date end_date rest (data @ page))))"

definition get_appointments_between ::
  "collaborator \<Rightarrow> DataService \<Rightarrow> date_arg \<Rightarrow> date_arg \<Rightarrow> pyval list option \<Rightarrow> pyval list prog" where
  "get_appointments_between C self start_date end_date appointment_status_arg =
     (let appointment_status = dflt [PStr ''Scheduled'', PStr ''Dispatched'', PStr ''Working'', PStr ''Done'']
                                 appointment_status_arg
      in appointments_loop C self start_date end_date appointment_status [])"

definition get_sold_estimates_between ::
  "collaborator \<Rightarrow> DataService \<Rightarrow> date_arg \<Rightarrow> date_arg \<Rightarrow> pyval list prog" where
  "get_sold_estimates_between C self start_date end_date =
     bind (convert_date C self start_date)
       (\<lambda>lo. bind (convert_date C self end_date)
       (\<lambda>hi. let options = [(''active'', PStr ''True''), (''soldAfter'', lo), (''soldBefore'', hi)]
             in Endpoint_get_all C (Endpoint ''sales'' ''estimates'' None (conn self)) options))"

text \<open>The two nested loops of \<^verbatim>\<open>get_total_sales_between\<close>; \<open>sales\<close> is the running
  total.\<close>

fun sum_skus :: "pyval list \<Rightarrow> pyval \<Rightarrow> exc + pyval" where
  "sum_skus [] sales = Inr sales"
| "sum_skus (sku # rest) sales =
     (case py_getitem sku ''total'' of
        Inl e \<Rightarrow> Inl e
      | Inr t \<Rightarrow> (case py_add sales t of Inl e \<Rightarrow> Inl e | Inr sales' \<Rightarrow> sum_skus rest sales'))"

fun sum_rows :: "pyval list \<Rightarrow> pyval \<Rightarrow> exc + pyval" where
  "sum_rows [] sales = Inr sales"
| "sum_rows (row # rest) sales =
     (case py_getitem row ''items'' of
        Inl e \<Rightarrow> Inl e
      | Inr its \<Rightarrow>
          (case py_iter its of
             Inl e \<Rightarrow> Inl e
           | Inr skus \<Rightarrow>
               (case sum_skus skus sales of Inl e \<Rightarrow> Inl e | Inr sales' \<Rightarrow> sum_rows rest sales')))"

definition get_total_sales_between ::
  "collaborator \<Rightarrow> DataService \<Rightarrow> date_arg \<Rightarrow> date_arg \<Rightarrow> pyval prog" where
  "get_total_sales_between C self start_date end_date =
     bind (get_sold_estimates_between C self start_date end_date)
       (\<lambda>data. lift (sum_rows data (PInt 0)))"

definition get_purchase_orders_created_between ::
  "collaborator \<Rightarrow> DataService \<Rightarrow> date_arg \<Rightarrow> date_arg \<Rightarrow> pyval list prog" where
  "get_purchase_orders_created_between C self start_date end_date =
     bind (convert_date C self start_date)
       (\<lambda>lo. bind (convert_date C self end_date)
       (\<lambda>hi. let options = [(''createdOnOrAfter'', lo), (''createdBefore'', hi)]
             in Endpoint_get_all C (Endpoint ''inventory'' ''purchase-orders'' None (conn self)) options))"

definition get_jobs_modified_between ::
  "collaborator \<Rightarrow> DataService \<Rightarrow> date_arg \<Rightarrow> date_arg \<Rightarrow> pyval \<Rightarrow> pyval list prog" where
  "get_jobs_modified_between C self start_date end_date app_guid =
     bind (convert_date C self start_date)
       (\<lambda>lo. bind (convert_date C self end_date)
       (\<lambda>hi. let options = [(''modifiedOnOrAfter'', lo), (''modifiedBefore'', hi)];
                 options = (if truthy app_guid
                            then dict_setitem options ''externalDataApplicationGuid'' app_guid
                            else options)
             in Endpoint_get_all C (Endpoint ''jpm'' ''jobs'' None (conn self)) options))"

definition get_employees :: "collaborator \<Rightarrow> DataService \<Rightarrow> pyval option \<Rightarrow> pyval list prog" where
  "get_employees C self active_arg =
     (let active = dflt (PStr ''True'') active_arg;
          options = [(''active'', active)]
      in Endpoint_get_all C (Endpoint ''settings'' ''employees'' None (conn self)) options)"

definition get_technicians :: "collaborator \<Rightarrow> DataService \<Rightarrow> pyval option \<Rightarrow> pyval list prog" where
  "get_technicians C self active_arg =
     (let active = dflt (PStr ''True'') active_arg;
          options = [(''active'', active)]
      in Endpoint_get_all C (Endpoint ''settings'' ''technicians'' None (conn self)) options)"

definition get_tag_types :: "collaborator \<Rightarrow> DataService \<Rightarrow> pyval option \<Rightarrow> pyval list prog" where
  "get_tag_types C self active_arg =
     (let active = dflt (PStr ''True'') active_arg;
          options = [(''active'', active)]
      in Endpoint_get_all C (Endpoint ''settings'' ''tag-types'' None (conn self)) options)"

definition get_business_units :: "collaborator \<Rightarrow> DataService \<Rightarrow> pyval option \<Rightarrow> pyval list prog" where
  "get_business_units C self active_arg =
     (let active = dflt (PStr ''True'') active_arg;
          options = [(''active'', active)]
      in Endpoint_get_all C (Endpoint ''settings'' ''business-units'' None (conn self)) options)"

definition get_job_types :: "collaborator \<Rightarrow> DataService \<Rightarrow> pyval option \<Rightarrow> pyval list prog" where
  "get_job_types C self active_arg =
     (let active = dflt (PStr ''Any'') active_arg;
          options = [(''active'', active)]
      in Endpoint_get_all C (Endpoint ''jpm'' ''job-types'' None (conn self)) options)"

definition get_calls_between ::
  "collaborator \<Rightarrow> DataService \<Rightarrow> date_arg \<Rightarrow> date_arg \<Rightarrow> pyval list prog" where
  "get_calls_between C self start_date end_date =
     bind (convert_date C self start_date)
       (\<lambda>lo. bind (convert_date C self end_date)
       (\<lambda>hi. let options = [(''createdOnOrAfter'', lo), (''createdBefore'', hi)]
             in Endpoint_get_all C (Endpoint ''telecom'' ''calls'' (Some (PStr ''3'')) (conn self)) options))"

definition get_bookings_between ::
  "collaborator \<Rightarrow> DataService \<Rightarrow> date_arg \<Rightarrow> date_arg \<Rightarrow> pyval list prog" where
  "get_bookings_between C self start_date end_date =
     bind (convert_date C self start_date)
       (\<lambda>lo. bind (convert_date C self end_date)
       (\<lambda>hi. let options = [(''createdOnOrAfter'', lo), (''createdBefore'', hi)]
             in Endpoint_get_all C (Endpoint ''crm'' ''bookings'' None (conn self)) options))"

definition get_payments_between ::
  "collaborator \<Rightarrow> DataService \<Rightarrow> date_arg \<Rightarrow> date_arg \<Rightarrow> pyval list prog" where
  "get_payments_between C self start_date end_date =
     bind (convert_date C self start_date)
       (\<lambda>lo. bind (convert_date C self end_date)
       (\<lambda>hi. let options = [(''paidOnAfter'', lo), (''paidOnBefore'', hi)]
             in Endpoint_get_all C (Endpoint ''accounting'' ''payments'' None (conn self)) options))"

definition get_invoices_between ::
  "collaborator \<Rightarrow> DataService \<Rightarrow> date_arg \<Rightarrow> date_arg \<Rightarrow> pyval list prog" where
  "get_invoices_between C self start_date end_date =
     bind (convert_date C self start_date)
       (\<lambda>lo. bind (convert_date C self end_date)
       (\<lambda>hi. let options = [(''invoicedOnOrAfter'', lo), (''invoicedOnBefore'', hi)]
             in Endpoint_get_all C (Endpoint ''accounting'' ''invoices'' None (conn self)) options))"

definition get_invoices_by_id :: "collaborator \<Rightarrow> DataService \<Rightarrow> pyval list \<Rightarrow> pyval list prog" where
  "get_invoices_by_id C self ids =
     bind (lift (py_join '','' ids))
       (\<lambda>joined. let options = [(''ids'', joined)]
                 in Endpoint_get_all C (Endpoint ''accounting'' ''invoices'' None (conn self)) options)"

definition get_estimates_by_job_id :: "collaborator \<Rightarrow> DataService \<Rightarrow> pyval \<Rightarrow> pyval list prog" where
  "get_estimates_by_job_id C self job_id =
     (let options = [(''jobId'', job_id)]
      in Endpoint_get_all C (Endpoint ''sales'' ''estimates'' None (conn self)) options)"

definition get_appointment_assignments_by_job_id ::
  "collaborator \<Rightarrow> DataService \<Rightarrow> pyval \<Rightarrow> pyval list prog" where
  "get_appointment_assignments_by_job_id C self job_id =
     (let options = [(''jobId'', job_id)]
      in Endpoint_get_all C (Endpoint ''dispatch'' ''appointment-assignments'' None (conn self)) options)"

definition get_technician_by_id :: "collaborator \<Rightarrow> DataService \<Rightarrow> pyval \<Rightarrow> pyval prog" where
  "get_technician_by_id C self tech_id =
     (let options = [(''ids'', tech_id)]
      in bind (Endpoint_get_all C (Endpoint ''settings'' ''technicians'' None (conn self)) options)
           (\<lambda>found. lift (py_first found)))"

definition get_all_technicians :: "collaborator \<Rightarrow> DataService \<Rightarrow> pyval list prog" where
  "get_all_technicians C self =
     (let options = []
      in Endpoint_get_all C (Endpoint ''settings'' ''technicians'' None (conn self)) options)"

definition get_payments_for_invoices :: "collaborator \<Rightarrow> DataService \<Rightarrow> pyval list \<Rightarrow> pyval list prog" where
  "get_payments_for_invoices C self invoice_ids =
     bind (lift (py_join '','' invoice_ids))
       (\<lambda>joined. let options = [(''appliedToInvoiceIds'', joined)]
                 in Endpoint_get_all C (Endpoint ''accounting'' ''payments'' None (conn self)) options)"

definition get_all_tag_types :: "collaborator \<Rightarrow> DataService \<Rightarrow> pyval list prog" where
  "get_all_tag_types C self =
     (let options = []
      in Endpoint_get_all C (Endpoint ''settings'' ''tag-types'' None (conn self)) options)"

definition get_attachment :: "collaborator \<Rightarrow> DataService \<Rightarrow> pyval \<Rightarrow> pyval prog" where
  "get_attachment C self attach_id =
     bind (Endpoint_get_one_raw C (Endpoint ''forms'' ''jobs/attachment'' None (conn self)) attach_id)
       (\<lambda>response. ret (content response))"

definition patch_job_external_data ::
  "collaborator \<Rightarrow> DataService \<Rightarrow> pyval \<Rightarrow> pyval \<Rightarrow> pyval \<Rightarrow> pyval option \<Rightarrow> pyval prog" where
  "patch_job_external_data C self job_id data_payload external_guid patch_mode_arg =
     (let patch_mode = dflt (PStr ''Merge'') patch_mode_arg;
          payload = PDict [(''externalData'',
                      PDict [(''patchMode'', patch_mode),
                             (''applicationGuid'', external_guid),
                             (''externalData'', data_payload)])]
      in Endpoint_update C (Endpoint ''jpm'' ''jobs'' None (conn self)) job_id payload ''PATCH'')"

section \<open>Observations on a run\<close>

text \<open>The collaborator calls a method issues when started in world \<open>w\<close>, in order, and
  the API versions they go to.\<close>

definition issued :: "'a prog \<Rightarrow> world \<Rightarrow> call list" where
  "issued p w = drop (length (calls w)) (calls (snd (p w)))"

fun call_endpoint :: "call \<Rightarrow> endpoint" where
  "call_endpoint (GetAll ep options) = ep"
| "call_endpoint (GetOneRaw ep i) = ep"
| "call_endpoint (Update ep i payload request_type) = ep"

definition versions_issued :: "'a prog \<Rightarrow> world \<Rightarrow> pyval list" where
  "versions_issued p w = map (\<lambda>c. ep_version (call_endpoint c)) (issued p w)"

text \<open>A method issues only calls that satisfy \<open>Q\<close>, whatever world it starts in and
  whether it returns or raises.\<close>

definition only_issues :: "(call \<Rightarrow> bool) \<Rightarrow> 'a prog \<Rightarrow> bool" where
  "only_issues Q p = (\<forall>w. \<exists>cs. calls (snd (p w)) = calls w @ cs \<and> list_all Q cs)"

text \<open>A call goes to API version \<open>v\<close>.\<close>

definition at_version :: "pyval \<Rightarrow> call \<Rightarrow> bool" where
  "at_version v c = (ep_version (call_endpoint c) = v)"

text \<open>\<^verbatim>\<open>s.endswith(suffix)\<close>, used to recognise the keys that follow the naming pattern
  \<^verbatim>\<open>{field}OnOrAfter\<close> and \<^verbatim>\<open>{field}Before\<close>.\<close>

definition py_endswith :: "string \<Rightarrow> string \<Rightarrow> bool" where
  "py_endswith s suffix =
     (length suffix \<le> length s \<and> drop (length s - length suffix) s = suffix)"

definition on_or_after_keys :: "dict \<Rightarrow> string list" where
  "on_or_after_keys options = filter (\<lambda>k. py_endswith k ''OnOrAfter'') (map fst options)"

definition before_keys :: "dict \<Rightarrow> string list" where
  "before_keys options = filter (\<lambda>k. py_endswith k ''Before'') (map fst options)"

text \<open>The date bounds of an options dictionary: its entries whose key ends in
  \<^verbatim>\<open>After\<close> (lower bounds) and those whose key ends in \<^verbatim>\<open>Before\<close> (upper bounds);
  and the bounds carried by each fetch a method issues.\<close>

definition date_bounds :: "dict \<Rightarrow> dict \<times> dict" where
  "date_bounds options =
     (filter (\<lambda>kv. py_endswith (fst kv) ''After'') options,
      filter (\<lambda>kv. py_endswith (fst kv) ''Before'') options)"

fun call_options :: "call \<Rightarrow> dict" where
  "call_options (GetAll ep options) = options"
| "call_options (GetOneRaw ep i) = []"
| "call_options (Update ep i payload request_type) = []"

definition bounds_issued :: "'a prog \<Rightarrow> world \<Rightarrow> (dict \<times> dict) list" where
  "bounds_issued p w = map (\<lambda>c. date_bounds (call_options c)) (issued p w)"

text \<open>The total of the sold estimates as the specification words it: the sum of the
  \<^verbatim>\<open>total\<close> field over every element of the \<^verbatim>\<open>items\<close> array of every record. A
  record or item lacks a field when it is no mapping or has no such key.\<close>

definition row_items :: "pyval \<Rightarrow> pyval list" where
  "row_items row = (case py_getitem row ''items'' of Inr (PList xs) \<Rightarrow> xs | _ \<Rightarrow> [])"

text \<open>For totals of any type: the \<^verbatim>\<open>total\<close> values of all items of all records, in
  order, and their sum from left to right with Python's \<^verbatim>\<open>+\<close>, which on floats rounds
  after every addition and which raises on a value that cannot be added.\<close>

definition item_total_value :: "pyval \<Rightarrow> pyval" where
  "item_total_value item = (case py_getitem item ''total'' of Inr t \<Rightarrow> t | Inl e \<Rightarrow> PNone)"

definition all_totals :: "pyval list \<Rightarrow> pyval list" where
  "all_totals rows = concat (map (\<lambda>row. map item_total_value (row_items row)) rows)"

fun add_all :: "pyval \<Rightarrow> pyval list \<Rightarrow> exc + pyval" where
  "add_all acc [] = Inr acc"
| "add_all acc (t # ts) =
     (case py_add acc t of Inl e \<Rightarrow> Inl e | Inr acc' \<Rightarrow> add_all acc' ts)"

definition has_total :: "pyval \<Rightarrow> bool" where
  "has_total item = (case py_getitem item ''total'' of Inr t \<Rightarrow> True | Inl e \<Rightarrow> False)"

definition has_items_with_totals :: "pyval \<Rightarrow> bool" where
  "has_items_with_totals row =
     (case py_getitem row ''items'' of Inr (PList xs) \<Rightarrow> list_all has_total xs | _ \<Rightarrow> False)"

text \<open>The integer case.\<close>

definition item_total :: "pyval \<Rightarrow> int" where
  "item_total item = (case py_getitem item ''total'' of Inr (PInt n) \<Rightarrow> n | _ \<Rightarrow> 0)"

definition sum_of_totals :: "pyval list \<Rightarrow> int" where
  "sum_of_totals rows = sum_list (map (\<lambda>row. sum_list (map item_total (row_items row))) rows)"

definition has_int_total :: "pyval \<Rightarrow> bool" where
  "has_int_total item = (case py_getitem item ''total'' of Inr (PInt n) \<Rightarrow> True | _ \<Rightarrow> False)"

definition has_item_list :: "pyval \<Rightarrow> bool" where
  "has_item_list row =
     (case py_getitem row ''items'' of Inr (PList xs) \<Rightarrow> list_all has_int_total xs | _ \<Rightarrow> False)"

fun lacks_field :: "string \<Rightarrow> pyval \<Rightarrow> bool" where
  "lacks_field k (PDict d) = (map_of d k = None)"
| "lacks_field k _ = True"

section \<open>A concrete collaborator\<close>

text \<open>An account with two sold estimates, one technician with id 7, and two jobs and
  one appointment per status; dates given as strings are passed on unchanged.\<close>

definition demo_get_all :: "endpoint \<Rightarrow> dict \<Rightarrow> exc + pyval list" where
  "demo_get_all ep options =
     (if ep_endpoint ep = ''estimates'' then
        Inr [PDict [(''items'', PList [PDict [(''total'', PInt 10)], PDict [(''total'', PInt 5)]])],
             PDict [(''items'', PList [PDict [(''total'', PInt 3)]])]]
      else if ep_endpoint ep = ''technicians'' then
        (if map_of options ''ids'' = Some (PInt 7) then Inr [PDict [(''id'', PInt 7)]] else Inr [])
      else if ep_endpoint ep = ''jobs'' then
        (case map_of options ''jobStatus'' of
           Some s \<Rightarrow> Inr [PDict [(''id'', PInt 1), (''jobStatus'', s)], PDict [(''id'', PInt 2), (''jobStatus'', s)]]
         | None \<Rightarrow> Inr [])
      else if ep_endpoint ep = ''appointments'' then
        (case map_of options ''status'' of
           Some s \<Rightarrow> Inr [PDict [(''id'', PInt 3), (''status'', s)]]
         | None \<Rightarrow> Inr [])
      else Inr [])"

definition demo_collaborator :: collaborator where
  "demo_collaborator =
     \<lparr>get_timezone_by_file = (\<lambda>c. Inr ''Australia/Sydney''),
      convert_date_to_api_format =
        (\<lambda>d tz. case d of DateStr s \<Rightarrow> Inr (PStr s) | _ \<Rightarrow> Inl TypeError),
      get_all = demo_get_all,
      get_one_raw = (\<lambda>ep i. Inr \<lparr>content = PStr ''raw''\<rparr>),
      update_one = (\<lambda>ep i payload request_type. Inr payload)\<rparr>"

definition demo_self :: DataService where
  "demo_self = \<lparr>conn = PNone, timezone = ''Australia/Sydney''\<rparr>"

definition demo_world :: world where
  "demo_world = \<lparr>heap = (\<lambda>a. []), next_addr = 0, calls = [], stdout = []\<rparr>"

text \<open>A world where the caller holds a dictionary at address 0 that already has a
  \<^verbatim>\<open>completedBefore\<close> entry.\<close>

definition shared_world :: world where
  "shared_world =
     \<lparr>heap = (\<lambda>a. [])(0 := [(''completedBefore'', PStr ''1999-12-31''), (''jobStatus'', PStr ''Completed'')]),
      next_addr = 1, calls = [], stdout = []\<rparr>"

section \<open>Evaluating float arithmetic\<close>

lemma bit_length_0: "bit_length 0 = 0"
  by (simp add: bit_length.simps)

lemma bit_length_1: "bit_length (Suc 0) = 1" "bit_length 1 = 1"
  by (simp_all add: bit_length.simps [of "Suc 0"] bit_length.simps [of 0])

lemma bit_length_numeral: "bit_length (numeral k) = 1 + bit_length (numeral k div 2)"
  by (subst bit_length.simps) simp

lemma normal_form_0: "normal_form s 0 e = FFinite s 0 0"
  by (simp add: normal_form.simps)

lemma normal_form_1: "normal_form s (Suc 0) e = FFinite s 1 e" "normal_form s 1 e = FFinite s 1 e"
  by (simp_all add: normal_form.simps [of _ "Suc 0"])

lemma normal_form_numeral:
  "normal_form s (numeral k) e =
     (if even (numeral k :: nat) then normal_form s (numeral k div 2) (e + 1) else FFinite s (numeral k) e)"
  by (subst normal_form.simps) simp

lemmas float_eval = bit_length_0 bit_length_1 bit_length_numeral normal_form_0 normal_form_1
  normal_form_numeral round_to_double_def float_of_int_def float_of_bool_def Let_def

text \<open>Some sums, as Python computes them: \<^verbatim>\<open>10.5 + 5.25\<close>, \<^verbatim>\<open>0.1 + 0.2\<close>, ties to even at
  \<open>2\<^sup>5\<^sup>3\<close>, cancellation and signed zeros, overflow at the largest float, the smallest
  subnormal, and infinities.\<close>

lemma fadd_examples:
  "fadd (FFinite False 21 (- 1)) (FFinite False 21 (- 2)) = FFinite False 63 (- 2)"
  "fadd (FFinite False 3602879701896397 (- 55)) (FFinite False 3602879701896397 (- 54)) = FFinite False 1351079888211149 (- 52)"
  "fadd (FFinite False 1 (53)) (FFinite False 1 (0)) = FFinite False 1 (53)"
  "fadd (FFinite False 1 (53)) (FFinite False 3 (0)) = FFinite False 2251799813685249 (2)"
  "fadd (FFinite False 3 (- 1)) (FFinite True 3 (- 1)) = FFinite False 0 0"
  "fadd (FFinite True 0 0) (FFinite True 0 0) = FFinite True 0 0"
  "fadd (FFinite True 0 0) (FFinite False 0 0) = FFinite False 0 0"
  "fadd (FFinite False 9007199254740991 (971)) (FFinite False 9007199254740991 (971)) = FInf False"
  "fadd (FFinite False 9007199254740991 (971)) (FFinite False 1 (969)) = FFinite False 9007199254740991 (971)"
  "fadd (FFinite False 9007199254740991 (971)) (FFinite False 1 (970)) = FInf False"
  "fadd (FFinite False 1 (- 1074)) (FFinite False 1 (- 1074)) = FFinite False 1 (- 1073)"
  "fadd (FInf False) (FInf True) = FNaN"
  "fadd (FInf False) (FFinite False 1 (0)) = FInf False"
  "fadd (FFinite False 152587890625 (16)) (FFinite False 1 (0)) = FFinite False 152587890625 (16)"
  "fadd (FFinite False 5404319552844595 (- 54)) (FFinite False 5404319552844595 (- 53)) = FFinite False 2026619832316723 (- 51)"
  by (simp_all add: float_eval)

lemma float_of_int_0: "float_of_int 0 = Some (FFinite False 0 0)"
  by (simp add: float_eval)


section \<open>Running a method\<close>

lemma bind_ret: "bind (ret x) f = f x"
  by (rule ext) (simp add: bind_def ret_def)

lemma bind_lift_Inr: "bind (lift (Inr x)) f = f x"
  by (rule ext) (simp add: bind_def lift_def)

lemma bind_lift_Inl: "bind (lift (Inl e)) f = lift (Inl e)"
  by (rule ext) (simp add: bind_def lift_def)

lemma bind_store_setitem:
  "bind (store_setitem a k v) f w = f () (w\<lparr>heap := (heap w)(a := dict_setitem (heap w a) k v)\<rparr>)"
  by (simp add: bind_def store_setitem_def)

lemma bind_new_dict:
  "bind (new_dict d) f w = f (next_addr w) (w\<lparr>heap := (heap w)(next_addr w := d), next_addr := Suc (next_addr w)\<rparr>)"
  by (simp add: bind_def new_dict_def)

lemma demo_convert [simp]:
  "convert_date_to_api_format demo_collaborator (DateStr s) tz = Inr (PStr s)"
  by (simp add: demo_collaborator_def)

lemma bind_get_all:
  "bind (Endpoint_get_all C ep options) f w =
     (case get_all C ep options of
        Inl e \<Rightarrow> (Inl e, w\<lparr>calls := calls w @ [GetAll ep options]\<rparr>)
      | Inr page \<Rightarrow> f page (w\<lparr>calls := calls w @ [GetAll ep options]\<rparr>))"
  by (simp add: bind_def Endpoint_get_all_def split: sum.splits)

section \<open>Single-request operations\<close>

lemma run_get_all:
  "Endpoint_get_all C ep options w = (get_all C ep options, w\<lparr>calls := calls w @ [GetAll ep options]\<rparr>)"
  by (simp add: Endpoint_get_all_def)

lemma run_technician_by_id:
  "get_technician_by_id C self x w =
     (case get_all C (Endpoint ''settings'' ''technicians'' None (conn self)) [(''ids'', x)] of
        Inl e \<Rightarrow> Inl e | Inr found \<Rightarrow> py_first found,
      w\<lparr>calls := calls w @ [GetAll (Endpoint ''settings'' ''technicians'' None (conn self)) [(''ids'', x)]]\<rparr>)"
  by (simp add: get_technician_by_id_def bind_def lift_def Endpoint_get_all_def split: sum.splits)

text \<open>
  C5. \<^verbatim>\<open>get_technician_by_id(x)\<close> issues one fetch of \<^verbatim>\<open>settings/technicians\<close> with the
  filter \<^verbatim>\<open>ids = x\<close> and returns the first element of the sequence the collaborator
  answers, so the single record when there is exactly one match; when the collaborator
  answers the empty sequence the method raises \<^verbatim>\<open>IndexError\<close>.
\<close>

theorem technician_by_id_first_or_fails:
  "issued (get_technician_by_id C self x) w =
     [GetAll (Endpoint ''settings'' ''technicians'' None (conn self)) [(''ids'', x)]]
   \<and> (\<forall>r rs. get_all C (Endpoint ''settings'' ''technicians'' None (conn self)) [(''ids'', x)] = Inr (r # rs)
         \<longrightarrow> fst (get_technician_by_id C self x w) = Inr r)
   \<and> (get_all C (Endpoint ''settings'' ''technicians'' None (conn self)) [(''ids'', x)] = Inr []
         \<longrightarrow> fst (get_technician_by_id C self x w) = Inl IndexError)"
  by (simp add: run_technician_by_id issued_def)

theorem technician_by_id_first_or_fails_witness:
  "get_all demo_collaborator (Endpoint ''settings'' ''technicians'' None (conn demo_self)) [(''ids'', PInt 7)]
     = Inr [PDict [(''id'', PInt 7)]]
   \<and> fst (get_technician_by_id demo_collaborator demo_self (PInt 7) demo_world) = Inr (PDict [(''id'', PInt 7)])
   \<and> get_all demo_collaborator (Endpoint ''settings'' ''technicians'' None (conn demo_self)) [(''ids'', PInt 8)]
     = Inr []
   \<and> fst (get_technician_by_id demo_collaborator demo_self (PInt 8) demo_world) = Inl IndexError"
proof -
  have one: "get_all demo_collaborator (Endpoint ''settings'' ''technicians'' None (conn demo_self)) [(''ids'', PInt 7)]
     = Inr [PDict [(''id'', PInt 7)]]"
    by (simp add: demo_collaborator_def demo_get_all_def Endpoint_def)
  have none: "get_all demo_collaborator (Endpoint ''settings'' ''technicians'' None (conn demo_self)) [(''ids'', PInt 8)]
     = Inr []"
    by (simp add: demo_collaborator_def demo_get_all_def Endpoint_def)
  from technician_by_id_first_or_fails [of demo_collaborator demo_self "PInt 7" demo_world] one
  have a: "fst (get_technician_by_id demo_collaborator demo_self (PInt 7) demo_world) = Inr (PDict [(''id'', PInt 7)])"
    by blast
  from technician_by_id_first_or_fails [of demo_collaborator demo_self "PInt 8" demo_world] none
  have b: "fst (get_technician_by_id demo_collaborator demo_self (PInt 8) demo_world) = Inl IndexError"
    by blast
  from one none a b show ?thesis by blast
qed

lemma run_invoices_by_id_strs:
  "list_all is_str ids \<Longrightarrow>
   get_invoices_by_id C self ids w =
     (get_all C (Endpoint ''accounting'' ''invoices'' None (conn self))
        [(''ids'', PStr (intercalate '','' (map str_val ids)))],
      w\<lparr>calls := calls w @ [GetAll (Endpoint ''accounting'' ''invoices'' None (conn self))
        [(''ids'', PStr (intercalate '','' (map str_val ids)))]]\<rparr>)"
  by (simp add: get_invoices_by_id_def bind_def lift_def py_join_def Endpoint_get_all_def)

text \<open>
  C8. \<^verbatim>\<open>get_invoices_by_id(["1", "2", "3"])\<close> issues one fetch of
  \<^verbatim>\<open>accounting/invoices\<close> whose options are exactly \<^verbatim>\<open>{"ids": "1,2,3"}\<close>: the ids joined
  with commas and no other key; what the method returns is the collaborator's answer to
  that fetch.
\<close>

theorem invoices_by_ids_sends_comma_joined:
  "issued (get_invoices_by_id C self [PStr ''1'', PStr ''2'', PStr ''3'']) w =
     [GetAll (Endpoint ''accounting'' ''invoices'' None (conn self)) [(''ids'', PStr ''1,2,3'')]]
   \<and> fst (get_invoices_by_id C self [PStr ''1'', PStr ''2'', PStr ''3''] w) =
       get_all C (Endpoint ''accounting'' ''invoices'' None (conn self)) [(''ids'', PStr ''1,2,3'')]"
  by (simp add: run_invoices_by_id_strs issued_def)

text \<open>
  C10. When the id list holds an element that is not a string, \<^verbatim>\<open>get_invoices_by_id\<close>
  and \<^verbatim>\<open>get_payments_for_invoices\<close> raise \<^verbatim>\<open>TypeError\<close> in the comma join and leave
  the world as it was: no request is issued. The join succeeds exactly when every element
  is a string.
\<close>

theorem join_of_non_strings_fails:
  "((\<exists>x \<in> set ids. \<not> is_str x) \<longrightarrow>
      get_invoices_by_id C self ids w = (Inl TypeError, w)
    \<and> get_payments_for_invoices C self ids w = (Inl TypeError, w)
    \<and> issued (get_invoices_by_id C self ids) w = []
    \<and> issued (get_payments_for_invoices C self ids) w = [])
   \<and> ((\<exists>s. py_join '','' ids = Inr s) \<longleftrightarrow> (\<forall>x \<in> set ids. is_str x))"
  by (auto simp: get_invoices_by_id_def get_payments_for_invoices_def bind_def lift_def
        py_join_def issued_def list_all_iff)

theorem join_of_non_strings_fails_witness:
  "(\<exists>x \<in> set [PInt 123456, PInt 5634765894]. \<not> is_str x)
   \<and> get_invoices_by_id demo_collaborator demo_self [PInt 123456, PInt 5634765894] demo_world
       = (Inl TypeError, demo_world)
   \<and> get_payments_for_invoices demo_collaborator demo_self [PInt 12345, PInt 32432] demo_world
       = (Inl TypeError, demo_world)
   \<and> list_all is_str [PStr ''1'', PStr ''2'']
   \<and> (\<exists>s. py_join '','' [PStr ''1'', PStr ''2''] = Inr s)"
proof -
  have h1: "\<exists>x \<in> set [PInt 123456, PInt 5634765894]. \<not> is_str x" by simp
  have h2: "\<exists>x \<in> set [PInt 12345, PInt 32432]. \<not> is_str x" by simp
  have h3: "\<forall>x \<in> set [PStr ''1'', PStr ''2'']. is_str x" by simp
  from join_of_non_strings_fails [of "[PInt 123456, PInt 5634765894]" demo_collaborator demo_self demo_world] h1
  have a: "get_invoices_by_id demo_collaborator demo_self [PInt 123456, PInt 5634765894] demo_world
       = (Inl TypeError, demo_world)" by blast
  from join_of_non_strings_fails [of "[PInt 12345, PInt 32432]" demo_collaborator demo_self demo_world] h2
  have b: "get_payments_for_invoices demo_collaborator demo_self [PInt 12345, PInt 32432] demo_world
       = (Inl TypeError, demo_world)" by blast
  from join_of_non_strings_fails [of "[PStr ''1'', PStr ''2'']" demo_collaborator demo_self demo_world] h3
  have c: "\<exists>s. py_join '','' [PStr ''1'', PStr ''2''] = Inr s" by blast
  have h4: "list_all is_str [PStr ''1'', PStr ''2'']" by simp
  from h1 a b h4 c show ?thesis by blast
qed

section \<open>Generic retrieval\<close>

lemma map_of_dict_setitem: "map_of (dict_setitem d k v) = (map_of d)(k \<mapsto> v)"
  by (induction d k v rule: dict_setitem.induct) (auto simp: fun_eq_iff)

lemma run_get_api_data_None:
  "get_api_data C self folder endpoint None version_arg w =
     (get_all C (Endpoint folder endpoint (Some (dflt (PInt 2) version_arg)) (conn self)) [],
      w\<lparr>calls := calls w @ [GetAll (Endpoint folder endpoint (Some (dflt (PInt 2) version_arg)) (conn self)) []],
        stdout := stdout w @
          [''WARNING: You have not put any options in so this will call EVERYTHING! Endpoint: ''
             @ folder @ '', '' @ endpoint]\<rparr>)"
  by (simp add: get_api_data_def bind_def print_def Endpoint_get_all_def)

lemma run_get_api_data_Some:
  "get_api_data C self folder endpoint (Some a) version_arg w =
     (get_all C (Endpoint folder endpoint (Some (dflt (PInt 2) version_arg)) (conn self)) (heap w a),
      w\<lparr>calls := calls w @ [GetAll (Endpoint folder endpoint (Some (dflt (PInt 2) version_arg)) (conn self)) (heap w a)]\<rparr>)"
  by (simp add: get_api_data_def bind_def read_dict_def Endpoint_get_all_def)

text \<open>
  C2, as stated, fails: the guard is \<^verbatim>\<open>options is None\<close>, so a caller who passes an
  empty dictionary of their own gets the unfiltered fetch and no warning. Here the
  caller's dictionary at address 0 is empty, nothing is printed, and the fetch is issued.
\<close>

theorem explicit_empty_options_no_warning:
  "heap demo_world 0 = []
   \<and> stdout (snd (get_api_data demo_collaborator demo_self ''settings'' ''technicians'' (Some 0) None demo_world)) = []
   \<and> issued (get_api_data demo_collaborator demo_self ''settings'' ''technicians'' (Some 0) None) demo_world
       = [GetAll (Endpoint ''settings'' ''technicians'' (Some (PInt 2)) PNone) []]"
  by (simp add: run_get_api_data_Some issued_def demo_world_def demo_self_def)

text \<open>
  C2, amended. When \<^verbatim>\<open>options\<close> is absent (\<^verbatim>\<open>None\<close>), \<^verbatim>\<open>get_api_data\<close> prints one
  warning line, raises nothing of its own, and still issues the unfiltered fetch; its
  result is the collaborator's answer to that fetch. When \<^verbatim>\<open>options\<close> is an explicitly
  supplied empty dictionary, the same unfiltered fetch is issued and nothing is printed.
\<close>

theorem get_api_data_warns_only_when_absent:
  "get_api_data C self folder endpoint None version_arg w =
     (get_all C (Endpoint folder endpoint (Some (dflt (PInt 2) version_arg)) (conn self)) [],
      w\<lparr>calls := calls w @ [GetAll (Endpoint folder endpoint (Some (dflt (PInt 2) version_arg)) (conn self)) []],
        stdout := stdout w @
          [''WARNING: You have not put any options in so this will call EVERYTHING! Endpoint: ''
             @ folder @ '', '' @ endpoint]\<rparr>)
   \<and> (heap w a = [] \<longrightarrow>
        get_api_data C self folder endpoint (Some a) version_arg w =
          (get_all C (Endpoint folder endpoint (Some (dflt (PInt 2) version_arg)) (conn self)) [],
           w\<lparr>calls := calls w @ [GetAll (Endpoint folder endpoint (Some (dflt (PInt 2) version_arg)) (conn self)) []]\<rparr>))"
  by (simp add: run_get_api_data_None run_get_api_data_Some)

theorem get_api_data_warns_only_when_absent_witness:
  "heap demo_world 0 = []
   \<and> get_api_data demo_collaborator demo_self ''settings'' ''technicians'' (Some 0) None demo_world =
       (Inr [],
        demo_world\<lparr>calls := [GetAll (Endpoint ''settings'' ''technicians'' (Some (PInt 2)) PNone) []]\<rparr>)
   \<and> get_api_data demo_collaborator demo_self ''settings'' ''technicians'' None None demo_world =
       (Inr [],
        demo_world\<lparr>calls := [GetAll (Endpoint ''settings'' ''technicians'' (Some (PInt 2)) PNone) []],
          stdout := [''WARNING: You have not put any options in so this will call EVERYTHING! Endpoint: settings, technicians'']\<rparr>)"
proof -
  have h: "heap demo_world 0 = []" by (simp add: demo_world_def)
  have g: "get_all demo_collaborator (Endpoint ''settings'' ''technicians'' (Some (PInt 2)) PNone) [] = Inr []"
    by (simp add: demo_collaborator_def demo_get_all_def Endpoint_def)
  have c: "calls demo_world = []" "stdout demo_world = []" "conn demo_self = PNone"
    by (simp_all add: demo_world_def demo_self_def)
  note t = get_api_data_warns_only_when_absent
             [of demo_collaborator demo_self "''settings''" "''technicians''" None demo_world 0]
  from t h g c show ?thesis by simp
qed

lemma run_get_api_data_between_Some:
  assumes "convert_date_to_api_format C start_date (timezone self) = Inr lo"
      and "convert_date_to_api_format C end_date (timezone self) = Inr hi"
  shows "get_api_data_between C self folder endpoint start_date end_date modifier_arg (Some a) version_arg w =
           get_api_data C self folder endpoint (Some a) (Some (dflt (PInt 2) version_arg))
             (w\<lparr>heap := (heap w)(a :=
                dict_setitem (dict_setitem (heap w a) (dflt ''completed'' modifier_arg @ ''OnOrAfter'') lo)
                  (dflt ''completed'' modifier_arg @ ''Before'') hi)\<rparr>)"
  using assms
  by (simp add: get_api_data_between_def Let_def convert_date_def bind_ret bind_lift_Inr
        bind_store_setitem)

lemma run_get_api_data_between_None:
  assumes "convert_date_to_api_format C start_date (timezone self) = Inr lo"
      and "convert_date_to_api_format C end_date (timezone self) = Inr hi"
  shows "get_api_data_between C self folder endpoint start_date end_date modifier_arg None version_arg w =
           get_api_data C self folder endpoint (Some (next_addr w)) (Some (dflt (PInt 2) version_arg))
             (w\<lparr>next_addr := Suc (next_addr w),
               heap := (heap w)(next_addr w :=
                [(dflt ''completed'' modifier_arg @ ''OnOrAfter'', lo),
                 (dflt ''completed'' modifier_arg @ ''Before'', hi)])\<rparr>)"
  using assms
  by (simp add: get_api_data_between_def Let_def convert_date_def bind_ret bind_lift_Inr
        bind_store_setitem bind_new_dict)

text \<open>
  C6. When both dates convert, \<^verbatim>\<open>get_api_data_between\<close> stores the converted start date
  under \<^verbatim>\<open>{date_filter_modifier}OnOrAfter\<close> and the converted end date under
  \<^verbatim>\<open>{date_filter_modifier}Before\<close>, where the modifier defaults to \<^verbatim>\<open>completed\<close>; the
  caller's other entries are kept and the caller's values under these two keys are
  overwritten; the result is what \<^verbatim>\<open>get_api_data\<close> returns on the merged dictionary,
  that is, the collaborator's answer to one fetch with the merged options. Without
  caller options the request carries exactly the two date keys.
\<close>

theorem api_data_between_merges_and_delegates:
  assumes "convert_date_to_api_format C start_date (timezone self) = Inr lo"
      and "convert_date_to_api_format C end_date (timezone self) = Inr hi"
      and "m = dflt ''completed'' modifier_arg"
      and "merged = dict_setitem (dict_setitem (heap w a) (m @ ''OnOrAfter'') lo) (m @ ''Before'') hi"
      and "ep = Endpoint folder endpoint (Some (dflt (PInt 2) version_arg)) (conn self)"
  shows "dflt ''completed'' None = ''completed''
       \<and> get_api_data_between C self folder endpoint start_date end_date modifier_arg (Some a) version_arg w
           = get_api_data C self folder endpoint (Some a) (Some (dflt (PInt 2) version_arg))
               (w\<lparr>heap := (heap w)(a := merged)\<rparr>)
       \<and> fst (get_api_data_between C self folder endpoint start_date end_date modifier_arg (Some a) version_arg w)
           = get_all C ep merged
       \<and> issued (get_api_data_between C self folder endpoint start_date end_date modifier_arg (Some a) version_arg) w
           = [GetAll ep merged]
       \<and> map_of merged = (map_of (heap w a))(m @ ''OnOrAfter'' \<mapsto> lo, m @ ''Before'' \<mapsto> hi)
       \<and> fst (get_api_data_between C self folder endpoint start_date end_date modifier_arg None version_arg w)
           = get_all C ep [(m @ ''OnOrAfter'', lo), (m @ ''Before'', hi)]
       \<and> issued (get_api_data_between C self folder endpoint start_date end_date modifier_arg None version_arg) w
           = [GetAll ep [(m @ ''OnOrAfter'', lo), (m @ ''Before'', hi)]]"
  using assms
  by (simp add: run_get_api_data_between_Some run_get_api_data_between_None run_get_api_data_Some
        issued_def map_of_dict_setitem)

theorem api_data_between_merges_and_delegates_witness:
  "convert_date_to_api_format demo_collaborator (DateStr ''2024-01-01'') (timezone demo_self) = Inr (PStr ''2024-01-01'')
   \<and> convert_date_to_api_format demo_collaborator (DateStr ''2024-01-31'') (timezone demo_self) = Inr (PStr ''2024-01-31'')
   \<and> issued (get_api_data_between demo_collaborator demo_self ''jpm'' ''jobs'' (DateStr ''2024-01-01'')
         (DateStr ''2024-01-31'') None (Some 0) None) shared_world
       = [GetAll (Endpoint ''jpm'' ''jobs'' (Some (PInt 2)) PNone)
            [(''completedBefore'', PStr ''2024-01-31''), (''jobStatus'', PStr ''Completed''),
             (''completedOnOrAfter'', PStr ''2024-01-01'')]]
   \<and> issued (get_api_data_between demo_collaborator demo_self ''accounting'' ''invoices'' (DateStr ''2024-01-01'')
         (DateStr ''2024-01-31'') (Some ''created'') None None) shared_world
       = [GetAll (Endpoint ''accounting'' ''invoices'' (Some (PInt 2)) PNone)
            [(''createdOnOrAfter'', PStr ''2024-01-01''), (''createdBefore'', PStr ''2024-01-31'')]]"
proof -
  have lo: "convert_date_to_api_format demo_collaborator (DateStr ''2024-01-01'') (timezone demo_self) = Inr (PStr ''2024-01-01'')"
    by simp
  have hi: "convert_date_to_api_format demo_collaborator (DateStr ''2024-01-31'') (timezone demo_self) = Inr (PStr ''2024-01-31'')"
    by simp
  have c: "conn demo_self = PNone" by (simp add: demo_self_def)
  have h: "heap shared_world 0 = [(''completedBefore'', PStr ''1999-12-31''), (''jobStatus'', PStr ''Completed'')]"
    by (simp add: shared_world_def)
  from api_data_between_merges_and_delegates [OF lo hi refl refl refl, where modifier_arg = None and w = shared_world and a = 0
          and folder = "''jpm''" and endpoint = "''jobs''" and version_arg = None]
  have a: "issued (get_api_data_between demo_collaborator demo_self ''jpm'' ''jobs'' (DateStr ''2024-01-01'')
         (DateStr ''2024-01-31'') None (Some 0) None) shared_world
       = [GetAll (Endpoint ''jpm'' ''jobs'' (Some (PInt 2)) PNone)
            [(''completedBefore'', PStr ''2024-01-31''), (''jobStatus'', PStr ''Completed''),
             (''completedOnOrAfter'', PStr ''2024-01-01'')]]"
    by (simp add: c h)
  from api_data_between_merges_and_delegates [OF lo hi refl refl refl, where modifier_arg = "Some ''created''" and w = shared_world and a = 0
          and folder = "''accounting''" and endpoint = "''invoices''" and version_arg = None]
  have b: "issued (get_api_data_between demo_collaborator demo_self ''accounting'' ''invoices'' (DateStr ''2024-01-01'')
         (DateStr ''2024-01-31'') (Some ''created'') None None) shared_world
       = [GetAll (Endpoint ''accounting'' ''invoices'' (Some (PInt 2)) PNone)
            [(''createdOnOrAfter'', PStr ''2024-01-01''), (''createdBefore'', PStr ''2024-01-31'')]]"
    by (simp add: c)
  from lo hi a b show ?thesis by blast
qed

text \<open>
  C9. \<^verbatim>\<open>get_api_data_between\<close> writes into the dictionary object the caller passed: when
  both dates convert, after the call (whether the fetch returned or raised) the object
  at the caller's address holds the two date keys with the converted dates, no new
  dictionary was allocated, and no other object changed.
\<close>

theorem api_data_between_mutates_callers_options:
  assumes "convert_date_to_api_format C start_date (timezone self) = Inr lo"
      and "convert_date_to_api_format C end_date (timezone self) = Inr hi"
      and "m = dflt ''completed'' modifier_arg"
      and "w' = snd (get_api_data_between C self folder endpoint start_date end_date modifier_arg (Some a) version_arg w)"
  shows "heap w' a = dict_setitem (dict_setitem (heap w a) (m @ ''OnOrAfter'') lo) (m @ ''Before'') hi
       \<and> map_of (heap w' a) (m @ ''OnOrAfter'') = Some lo
       \<and> map_of (heap w' a) (m @ ''Before'') = Some hi
       \<and> next_addr w' = next_addr w
       \<and> (\<forall>b. b \<noteq> a \<longrightarrow> heap w' b = heap w b)"
  using assms
  by (simp add: run_get_api_data_between_Some run_get_api_data_Some map_of_dict_setitem)

theorem api_data_between_mutates_callers_options_witness:
  "convert_date_to_api_format demo_collaborator (DateStr ''2024-01-01'') (timezone demo_self) = Inr (PStr ''2024-01-01'')
   \<and> convert_date_to_api_format demo_collaborator (DateStr ''2024-01-31'') (timezone demo_self) = Inr (PStr ''2024-01-31'')
   \<and> heap shared_world 0 = [(''completedBefore'', PStr ''1999-12-31''), (''jobStatus'', PStr ''Completed'')]
   \<and> heap (snd (get_api_data_between demo_collaborator demo_self ''jpm'' ''jobs'' (DateStr ''2024-01-01'')
         (DateStr ''2024-01-31'') None (Some 0) None shared_world)) 0
       = [(''completedBefore'', PStr ''2024-01-31''), (''jobStatus'', PStr ''Completed''),
          (''completedOnOrAfter'', PStr ''2024-01-01'')]"
proof -
  have lo: "convert_date_to_api_format demo_collaborator (DateStr ''2024-01-01'') (timezone demo_self) = Inr (PStr ''2024-01-01'')"
    by simp
  have hi: "convert_date_to_api_format demo_collaborator (DateStr ''2024-01-31'') (timezone demo_self) = Inr (PStr ''2024-01-31'')"
    by simp
  have h: "heap shared_world 0 = [(''completedBefore'', PStr ''1999-12-31''), (''jobStatus'', PStr ''Completed'')]"
    by (simp add: shared_world_def)
  from api_data_between_mutates_callers_options [OF lo hi refl refl, where modifier_arg = None and a = 0 and folder = "''jpm''"
          and endpoint = "''jobs''" and version_arg = None and w = shared_world]
  have a: "heap (snd (get_api_data_between demo_collaborator demo_self ''jpm'' ''jobs'' (DateStr ''2024-01-01'')
         (DateStr ''2024-01-31'') None (Some 0) None shared_world)) 0
       = [(''completedBefore'', PStr ''2024-01-31''), (''jobStatus'', PStr ''Completed''),
          (''completedOnOrAfter'', PStr ''2024-01-01'')]"
    by (simp add: h)
  from lo hi h a show ?thesis by blast
qed

section \<open>One request per status\<close>

lemma jobs_completed_loop_run:
  assumes "convert_date_to_api_format C start_date (timezone self) = Inr lo"
      and "convert_date_to_api_format C end_date (timezone self) = Inr hi"
      and "opts = (\<lambda>st. if truthy app_guid
                     then [(''jobStatus'', st), (''completedOnOrAfter'', lo), (''completedBefore'', hi),
                           (''externalDataApplicationGuid'', app_guid)]
                     else [(''jobStatus'', st), (''completedOnOrAfter'', lo), (''completedBefore'', hi)])"
      and "\<forall>st \<in> set statuses. get_all C (Endpoint ''jpm'' ''jobs'' None (conn self)) (opts st) = Inr (pages st)"
  shows "jobs_completed_loop C self start_date end_date app_guid statuses data w =
           (Inr (data @ concat (map pages statuses)),
            w\<lparr>calls := calls w @ map (\<lambda>st. GetAll (Endpoint ''jpm'' ''jobs'' None (conn self)) (opts st)) statuses\<rparr>)"
  using assms(4)
proof (induction statuses arbitrary: data w)
  case Nil
  show ?case by (simp add: ret_def)
next
  case (Cons st rest)
  have page: "get_all C (Endpoint ''jpm'' ''jobs'' None (conn self)) (opts st) = Inr (pages st)"
    using Cons.prems by simp
  have rest: "\<forall>st \<in> set rest. get_all C (Endpoint ''jpm'' ''jobs'' None (conn self)) (opts st) = Inr (pages st)"
    using Cons.prems by simp
  have o1: "truthy app_guid \<Longrightarrow>
      [(''jobStatus'', st), (''completedOnOrAfter'', lo), (''completedBefore'', hi),
       (''externalDataApplicationGuid'', app_guid)] = opts st"
    by (simp add: assms(3))
  have o2: "\<not> truthy app_guid \<Longrightarrow>
      [(''jobStatus'', st), (''completedOnOrAfter'', lo), (''completedBefore'', hi)] = opts st"
    by (simp add: assms(3))
  show ?case
    using assms(1,2)
    by (cases "truthy app_guid")
       (simp_all add: convert_date_def bind_lift_Inr Let_def bind_get_all o1 o2 page Cons.IH [OF rest])
qed

lemma appointments_loop_run:
  assumes "convert_date_to_api_format C start_date (timezone self) = Inr lo"
      and "convert_date_to_api_format C end_date (timezone self) = Inr hi"
      and "opts = (\<lambda>st. [(''status'', st), (''startsOnOrAfter'', lo), (''startsBefore'', hi)])"
      and "\<forall>st \<in> set statuses. get_all C (Endpoint ''jpm'' ''appointments'' None (conn self)) (opts st) = Inr (pages st)"
  shows "appointments_loop C self start_date end_date statuses data w =
           (Inr (data @ concat (map pages statuses)),
            w\<lparr>calls := calls w @ map (\<lambda>st. GetAll (Endpoint ''jpm'' ''appointments'' None (conn self)) (opts st)) statuses\<rparr>)"
  using assms(4)
proof (induction statuses arbitrary: data w)
  case Nil
  show ?case by (simp add: ret_def)
next
  case (Cons st rest)
  have page: "get_all C (Endpoint ''jpm'' ''appointments'' None (conn self)) (opts st) = Inr (pages st)"
    using Cons.prems by simp
  have rest: "\<forall>st \<in> set rest. get_all C (Endpoint ''jpm'' ''appointments'' None (conn self)) (opts st) = Inr (pages st)"
    using Cons.prems by simp
  have o: "[(''status'', st), (''startsOnOrAfter'', lo), (''startsBefore'', hi)] = opts st"
    by (simp add: assms(3))
  show ?case
    using assms(1,2)
    by (simp add: convert_date_def bind_lift_Inr Let_def bind_get_all o page Cons.IH [OF rest])
qed

text \<open>
  C1. For every list of statuses, when the dates convert and the collaborator answers
  every fetch, \<^verbatim>\<open>get_jobs_completed_between\<close> (and likewise
  \<^verbatim>\<open>get_appointments_between\<close>) issues exactly one fetch per status, in the order the
  statuses were given, and returns the concatenation of the per-status answers in that
  same order.
\<close>

theorem one_fetch_per_status_in_order:
  assumes "convert_date_to_api_format C start_date (timezone self) = Inr lo"
      and "convert_date_to_api_format C end_date (timezone self) = Inr hi"
      and "job_opts = (\<lambda>st. if truthy app_guid
                     then [(''jobStatus'', st), (''completedOnOrAfter'', lo), (''completedBefore'', hi),
                           (''externalDataApplicationGuid'', app_guid)]
                     else [(''jobStatus'', st), (''completedOnOrAfter'', lo), (''completedBefore'', hi)])"
      and "\<forall>st \<in> set statuses. get_all C (Endpoint ''jpm'' ''jobs'' None (conn self)) (job_opts st) = Inr (job_pages st)"
      and "appt_opts = (\<lambda>st. [(''status'', st), (''startsOnOrAfter'', lo), (''startsBefore'', hi)])"
      and "\<forall>st \<in> set statuses. get_all C (Endpoint ''jpm'' ''appointments'' None (conn self)) (appt_opts st) = Inr (appt_pages st)"
  shows "issued (get_jobs_completed_between C self start_date end_date (Some statuses) app_guid) w
           = map (\<lambda>st. GetAll (Endpoint ''jpm'' ''jobs'' None (conn self)) (job_opts st)) statuses
       \<and> length (issued (get_jobs_completed_between C self start_date end_date (Some statuses) app_guid) w)
           = length statuses
       \<and> fst (get_jobs_completed_between C self start_date end_date (Some statuses) app_guid w)
           = Inr (concat (map job_pages statuses))
       \<and> issued (get_appointments_between C self start_date end_date (Some statuses)) w
           = map (\<lambda>st. GetAll (Endpoint ''jpm'' ''appointments'' None (conn self)) (appt_opts st)) statuses
       \<and> length (issued (get_appointments_between C self start_date end_date (Some statuses)) w)
           = length statuses
       \<and> fst (get_appointments_between C self start_date end_date (Some statuses) w)
           = Inr (concat (map appt_pages statuses))"
  by (simp add: get_jobs_completed_between_def get_appointments_between_def issued_def
        jobs_completed_loop_run [OF assms(1,2,3,4)] appointments_loop_run [OF assms(1,2,5,6)])

theorem one_fetch_per_status_in_order_witness:
  "issued (get_jobs_completed_between demo_collaborator demo_self (DateStr ''2024-01-01'') (DateStr ''2024-01-31'')
             (Some [PStr ''A'', PStr ''B'']) PNone) demo_world
     = [GetAll (Endpoint ''jpm'' ''jobs'' None PNone)
          [(''jobStatus'', PStr ''A''), (''completedOnOrAfter'', PStr ''2024-01-01''), (''completedBefore'', PStr ''2024-01-31'')],
        GetAll (Endpoint ''jpm'' ''jobs'' None PNone)
          [(''jobStatus'', PStr ''B''), (''completedOnOrAfter'', PStr ''2024-01-01''), (''completedBefore'', PStr ''2024-01-31'')]]
   \<and> fst (get_jobs_completed_between demo_collaborator demo_self (DateStr ''2024-01-01'') (DateStr ''2024-01-31'')
             (Some [PStr ''A'', PStr ''B'']) PNone demo_world)
     = Inr [PDict [(''id'', PInt 1), (''jobStatus'', PStr ''A'')], PDict [(''id'', PInt 2), (''jobStatus'', PStr ''A'')],
            PDict [(''id'', PInt 1), (''jobStatus'', PStr ''B'')], PDict [(''id'', PInt 2), (''jobStatus'', PStr ''B'')]]
   \<and> issued (get_appointments_between demo_collaborator demo_self (DateStr ''2024-01-01'') (DateStr ''2024-01-31'')
             (Some [PStr ''A'', PStr ''B''])) demo_world
     = [GetAll (Endpoint ''jpm'' ''appointments'' None PNone)
          [(''status'', PStr ''A''), (''startsOnOrAfter'', PStr ''2024-01-01''), (''startsBefore'', PStr ''2024-01-31'')],
        GetAll (Endpoint ''jpm'' ''appointments'' None PNone)
          [(''status'', PStr ''B''), (''startsOnOrAfter'', PStr ''2024-01-01''), (''startsBefore'', PStr ''2024-01-31'')]]
   \<and> fst (get_appointments_between demo_collaborator demo_self (DateStr ''2024-01-01'') (DateStr ''2024-01-31'')
             (Some [PStr ''A'', PStr ''B'']) demo_world)
     = Inr [PDict [(''id'', PInt 3), (''status'', PStr ''A'')], PDict [(''id'', PInt 3), (''status'', PStr ''B'')]]"
proof -
  have lo: "convert_date_to_api_format demo_collaborator (DateStr ''2024-01-01'') (timezone demo_self) = Inr (PStr ''2024-01-01'')"
    by simp
  have hi: "convert_date_to_api_format demo_collaborator (DateStr ''2024-01-31'') (timezone demo_self) = Inr (PStr ''2024-01-31'')"
    by simp
  have c: "conn demo_self = PNone" by (simp add: demo_self_def)
  have jobs: "\<forall>st \<in> set [PStr ''A'', PStr ''B''].
      get_all demo_collaborator (Endpoint ''jpm'' ''jobs'' None (conn demo_self))
        (if truthy PNone
         then [(''jobStatus'', st), (''completedOnOrAfter'', PStr ''2024-01-01''), (''completedBefore'', PStr ''2024-01-31''),
               (''externalDataApplicationGuid'', PNone)]
         else [(''jobStatus'', st), (''completedOnOrAfter'', PStr ''2024-01-01''), (''completedBefore'', PStr ''2024-01-31'')])
      = Inr [PDict [(''id'', PInt 1), (''jobStatus'', st)], PDict [(''id'', PInt 2), (''jobStatus'', st)]]"
    by (simp add: demo_collaborator_def demo_get_all_def Endpoint_def)
  have appts: "\<forall>st \<in> set [PStr ''A'', PStr ''B''].
      get_all demo_collaborator (Endpoint ''jpm'' ''appointments'' None (conn demo_self))
        [(''status'', st), (''startsOnOrAfter'', PStr ''2024-01-01''), (''startsBefore'', PStr ''2024-01-31'')]
      = Inr [PDict [(''id'', PInt 3), (''status'', st)]]"
    by (simp add: demo_collaborator_def demo_get_all_def Endpoint_def)
  note t = one_fetch_per_status_in_order [OF lo hi refl jobs refl appts, of demo_world]
  from t show ?thesis by (simp add: c)
qed

section \<open>Date bounds of the between operations\<close>

lemma run_sold_estimates:
  assumes "convert_date_to_api_format C start_date (timezone self) = Inr lo"
      and "convert_date_to_api_format C end_date (timezone self) = Inr hi"
  shows "get_sold_estimates_between C self start_date end_date w =
           (get_all C (Endpoint ''sales'' ''estimates'' None (conn self))
              [(''active'', PStr ''True''), (''soldAfter'', lo), (''soldBefore'', hi)],
            w\<lparr>calls := calls w @ [GetAll (Endpoint ''sales'' ''estimates'' None (conn self))
              [(''active'', PStr ''True''), (''soldAfter'', lo), (''soldBefore'', hi)]]\<rparr>)"
  using assms
  by (simp add: get_sold_estimates_between_def convert_date_def bind_lift_Inr Let_def run_get_all)

lemma run_jobs_created:
  assumes "convert_date_to_api_format C start_date (timezone self) = Inr lo"
      and "convert_date_to_api_format C end_date (timezone self) = Inr hi"
      and "opts = (if truthy app_guid
                   then [(''createdOnOrAfter'', lo), (''createdBefore'', hi), (''externalDataApplicationGuid'', app_guid)]
                   else [(''createdOnOrAfter'', lo), (''createdBefore'', hi)])"
  shows "get_jobs_created_between C self start_date end_date app_guid w =
           (get_all C (Endpoint ''jpm'' ''jobs'' None (conn self)) opts,
            w\<lparr>calls := calls w @ [GetAll (Endpoint ''jpm'' ''jobs'' None (conn self)) opts]\<rparr>)"
  using assms
  by (simp add: get_jobs_created_between_def convert_date_def bind_lift_Inr Let_def run_get_all)

lemma run_jobs_modified:
  assumes "convert_date_to_api_format C start_date (timezone self) = Inr lo"
      and "convert_date_to_api_format C end_date (timezone self) = Inr hi"
      and "opts = (if truthy app_guid
                   then [(''modifiedOnOrAfter'', lo), (''modifiedBefore'', hi), (''externalDataApplicationGuid'', app_guid)]
                   else [(''modifiedOnOrAfter'', lo), (''modifiedBefore'', hi)])"
  shows "get_jobs_modified_between C self start_date end_date app_guid w =
           (get_all C (Endpoint ''jpm'' ''jobs'' None (conn self)) opts,
            w\<lparr>calls := calls w @ [GetAll (Endpoint ''jpm'' ''jobs'' None (conn self)) opts]\<rparr>)"
  using assms
  by (simp add: get_jobs_modified_between_def convert_date_def bind_lift_Inr Let_def run_get_all)

lemma run_purchase_orders:
  assumes "convert_date_to_api_format C start_date (timezone self) = Inr lo"
      and "convert_date_to_api_format C end_date (timezone self) = Inr hi"
  shows "get_purchase_orders_created_between C self start_date end_date w =
           (get_all C (Endpoint ''inventory'' ''purchase-orders'' None (conn self))
              [(''createdOnOrAfter'', lo), (''createdBefore'', hi)],
            w\<lparr>calls := calls w @ [GetAll (Endpoint ''inventory'' ''purchase-orders'' None (conn self))
              [(''createdOnOrAfter'', lo), (''createdBefore'', hi)]]\<rparr>)"
  using assms
  by (simp add: get_purchase_orders_created_between_def convert_date_def bind_lift_Inr Let_def run_get_all)

lemma run_calls:
  assumes "convert_date_to_api_format C start_date (timezone self) = Inr lo"
      and "convert_date_to_api_format C end_date (timezone self) = Inr hi"
  shows "get_calls_between C self start_date end_date w =
           (get_all C (Endpoint ''telecom'' ''calls'' (Some (PStr ''3'')) (conn self))
              [(''createdOnOrAfter'', lo), (''createdBefore'', hi)],
            w\<lparr>calls := calls w @ [GetAll (Endpoint ''telecom'' ''calls'' (Some (PStr ''3'')) (conn self))
              [(''createdOnOrAfter'', lo), (''createdBefore'', hi)]]\<rparr>)"
  using assms
  by (simp add: get_calls_between_def convert_date_def bind_lift_Inr Let_def run_get_all)

lemma run_bookings:
  assumes "convert_date_to_api_format C start_date (timezone self) = Inr lo"
      and "convert_date_to_api_format C end_date (timezone self) = Inr hi"
  shows "get_bookings_between C self start_date end_date w =
           (get_all C (Endpoint ''crm'' ''bookings'' None (conn self))
              [(''createdOnOrAfter'', lo), (''createdBefore'', hi)],
            w\<lparr>calls := calls w @ [GetAll (Endpoint ''crm'' ''bookings'' None (conn self))
              [(''createdOnOrAfter'', lo), (''createdBefore'', hi)]]\<rparr>)"
  using assms
  by (simp add: get_bookings_between_def convert_date_def bind_lift_Inr Let_def run_get_all)

lemma run_payments:
  assumes "convert_date_to_api_format C start_date (timezone self) = Inr lo"
      and "convert_date_to_api_format C end_date (timezone self) = Inr hi"
  shows "get_payments_between C self start_date end_date w =
           (get_all C (Endpoint ''accounting'' ''payments'' None (conn self))
              [(''paidOnAfter'', lo), (''paidOnBefore'', hi)],
            w\<lparr>calls := calls w @ [GetAll (Endpoint ''accounting'' ''payments'' None (conn self))
              [(''paidOnAfter'', lo), (''paidOnBefore'', hi)]]\<rparr>)"
  using assms
  by (simp add: get_payments_between_def convert_date_def bind_lift_Inr Let_def run_get_all)

lemma run_invoices:
  assumes "convert_date_to_api_format C start_date (timezone self) = Inr lo"
      and "convert_date_to_api_format C end_date (timezone self) = Inr hi"
  shows "get_invoices_between C self start_date end_date w =
           (get_all C (Endpoint ''accounting'' ''invoices'' None (conn self))
              [(''invoicedOnOrAfter'', lo), (''invoicedOnBefore'', hi)],
            w\<lparr>calls := calls w @ [GetAll (Endpoint ''accounting'' ''invoices'' None (conn self))
              [(''invoicedOnOrAfter'', lo), (''invoicedOnBefore'', hi)]]\<rparr>)"
  using assms
  by (simp add: get_invoices_between_def convert_date_def bind_lift_Inr Let_def run_get_all)

text \<open>Without assuming that the fetches succeed: the loop issues the requests of a
  prefix of the statuses, at least one when there is a status.\<close>

lemma jobs_completed_loop_calls:
  assumes "convert_date_to_api_format C start_date (timezone self) = Inr lo"
      and "convert_date_to_api_format C end_date (timezone self) = Inr hi"
      and "opts = (\<lambda>st. if truthy app_guid
                     then [(''jobStatus'', st), (''completedOnOrAfter'', lo), (''completedBefore'', hi),
                           (''externalDataApplicationGuid'', app_guid)]
                     else [(''jobStatus'', st), (''completedOnOrAfter'', lo), (''completedBefore'', hi)])"
  shows "\<exists>n. (statuses \<noteq> [] \<longrightarrow> 0 < n) \<and>
           calls (snd (jobs_completed_loop C self start_date end_date app_guid statuses data w)) =
             calls w @ map (\<lambda>st. GetAll (Endpoint ''jpm'' ''jobs'' None (conn self)) (opts st)) (take n statuses)"
proof (induction statuses arbitrary: data w)
  case Nil
  show ?case by (simp add: ret_def)
next
  case (Cons st rest)
  let ?ep = "Endpoint ''jpm'' ''jobs'' None (conn self)"
  let ?w1 = "w\<lparr>calls := calls w @ [GetAll ?ep (opts st)]\<rparr>"
  have o1: "truthy app_guid \<Longrightarrow>
      [(''jobStatus'', st), (''completedOnOrAfter'', lo), (''completedBefore'', hi),
       (''externalDataApplicationGuid'', app_guid)] = opts st"
    by (simp add: assms(3))
  have o2: "\<not> truthy app_guid \<Longrightarrow>
      [(''jobStatus'', st), (''completedOnOrAfter'', lo), (''completedBefore'', hi)] = opts st"
    by (simp add: assms(3))
  have step: "jobs_completed_loop C self start_date end_date app_guid (st # rest) data w =
      (case get_all C ?ep (opts st) of
         Inl e \<Rightarrow> (Inl e, ?w1)
       | Inr page \<Rightarrow> jobs_completed_loop C self start_date end_date app_guid rest (data @ page) ?w1)"
    using assms(1,2)
    by (cases "truthy app_guid")
       (simp_all add: convert_date_def bind_lift_Inr Let_def bind_get_all o1 o2 split: sum.splits)
  show ?case
  proof (cases "get_all C ?ep (opts st)")
    case (Inl e)
    with step have "calls (snd (jobs_completed_loop C self start_date end_date app_guid (st # rest) data w)) =
        calls w @ map (\<lambda>st. GetAll ?ep (opts st)) (take 1 (st # rest))"
      by simp
    then show ?thesis by (intro exI [of _ 1]) simp
  next
    case (Inr page)
    from Cons.IH [of "data @ page" ?w1] obtain n where
      n: "calls (snd (jobs_completed_loop C self start_date end_date app_guid rest (data @ page) ?w1)) =
            calls ?w1 @ map (\<lambda>st. GetAll ?ep (opts st)) (take n rest)"
      by blast
    from step Inr n have "calls (snd (jobs_completed_loop C self start_date end_date app_guid (st # rest) data w)) =
        calls w @ map (\<lambda>st. GetAll ?ep (opts st)) (take (Suc n) (st # rest))"
      by simp
    then show ?thesis by (intro exI [of _ "Suc n"]) simp
  qed
qed

lemma appointments_loop_calls:
  assumes "convert_date_to_api_format C start_date (timezone self) = Inr lo"
      and "convert_date_to_api_format C end_date (timezone self) = Inr hi"
      and "opts = (\<lambda>st. [(''status'', st), (''startsOnOrAfter'', lo), (''startsBefore'', hi)])"
  shows "\<exists>n. (statuses \<noteq> [] \<longrightarrow> 0 < n) \<and>
           calls (snd (appointments_loop C self start_date end_date statuses data w)) =
             calls w @ map (\<lambda>st. GetAll (Endpoint ''jpm'' ''appointments'' None (conn self)) (opts st)) (take n statuses)"
proof (induction statuses arbitrary: data w)
  case Nil
  show ?case by (simp add: ret_def)
next
  case (Cons st rest)
  let ?ep = "Endpoint ''jpm'' ''appointments'' None (conn self)"
  let ?w1 = "w\<lparr>calls := calls w @ [GetAll ?ep (opts st)]\<rparr>"
  have o: "[(''status'', st), (''startsOnOrAfter'', lo), (''startsBefore'', hi)] = opts st"
    by (simp add: assms(3))
  have step: "appointments_loop C self start_date end_date (st # rest) data w =
      (case get_all C ?ep (opts st) of
         Inl e \<Rightarrow> (Inl e, ?w1)
       | Inr page \<Rightarrow> appointments_loop C self start_date end_date rest (data @ page) ?w1)"
    using assms(1,2)
    by (simp add: convert_date_def bind_lift_Inr Let_def bind_get_all o split: sum.splits)
  show ?case
  proof (cases "get_all C ?ep (opts st)")
    case (Inl e)
    with step have "calls (snd (appointments_loop C self start_date end_date (st # rest) data w)) =
        calls w @ map (\<lambda>st. GetAll ?ep (opts st)) (take 1 (st # rest))"
      by simp
    then show ?thesis by (intro exI [of _ 1]) simp
  next
    case (Inr page)
    from Cons.IH [of "data @ page" ?w1] obtain n where
      n: "calls (snd (appointments_loop C self start_date end_date rest (data @ page) ?w1)) =
            calls ?w1 @ map (\<lambda>st. GetAll ?ep (opts st)) (take n rest)"
      by blast
    from step Inr n have "calls (snd (appointments_loop C self start_date end_date (st # rest) data w)) =
        calls w @ map (\<lambda>st. GetAll ?ep (opts st)) (take (Suc n) (st # rest))"
      by simp
    then show ?thesis by (intro exI [of _ "Suc n"]) simp
  qed
qed

lemma bounds_issued_jobs_completed:
  assumes "convert_date_to_api_format C start_date (timezone self) = Inr lo"
      and "convert_date_to_api_format C end_date (timezone self) = Inr hi"
  shows "set (bounds_issued (get_jobs_completed_between C self start_date end_date job_status_arg app_guid) w)
           \<subseteq> {([(''completedOnOrAfter'', lo)], [(''completedBefore'', hi)])}"
    and "job_status_arg \<noteq> Some [] \<Longrightarrow>
         bounds_issued (get_jobs_completed_between C self start_date end_date job_status_arg app_guid) w \<noteq> []"
proof -
  define statuses where
    "statuses = dflt [PStr ''Completed'', PStr ''Scheduled'', PStr ''InProgress'', PStr ''Dispatched''] job_status_arg"
  define opts where
    "opts = (\<lambda>st. if truthy app_guid
                     then [(''jobStatus'', st), (''completedOnOrAfter'', lo), (''completedBefore'', hi),
                           (''externalDataApplicationGuid'', app_guid)]
                     else [(''jobStatus'', st), (''completedOnOrAfter'', lo), (''completedBefore'', hi)])"
  from jobs_completed_loop_calls [OF assms opts_def, of statuses "[]" w]
  obtain n where pos: "statuses \<noteq> [] \<longrightarrow> 0 < n"
    and n: "calls (snd (jobs_completed_loop C self start_date end_date app_guid statuses [] w)) =
             calls w @ map (\<lambda>st. GetAll (Endpoint ''jpm'' ''jobs'' None (conn self)) (opts st)) (take n statuses)"
    by blast
  have b: "date_bounds (opts st) = ([(''completedOnOrAfter'', lo)], [(''completedBefore'', hi)])" for st
    by (simp add: opts_def date_bounds_def py_endswith_def)
  have eq: "bounds_issued (get_jobs_completed_between C self start_date end_date job_status_arg app_guid) w
      = map (\<lambda>st. ([(''completedOnOrAfter'', lo)], [(''completedBefore'', hi)])) (take n statuses)"
    by (simp add: bounds_issued_def issued_def get_jobs_completed_between_def statuses_def [symmetric] n b
          comp_def)
  show "set (bounds_issued (get_jobs_completed_between C self start_date end_date job_status_arg app_guid) w)
           \<subseteq> {([(''completedOnOrAfter'', lo)], [(''completedBefore'', hi)])}"
    unfolding eq by auto
  show "bounds_issued (get_jobs_completed_between C self start_date end_date job_status_arg app_guid) w \<noteq> []"
    if "job_status_arg \<noteq> Some []"
  proof -
    from that have "statuses \<noteq> []" by (cases job_status_arg) (simp_all add: statuses_def)
    with pos show ?thesis unfolding eq by simp
  qed
qed

lemma bounds_issued_appointments:
  assumes "convert_date_to_api_format C start_date (timezone self) = Inr lo"
      and "convert_date_to_api_format C end_date (timezone self) = Inr hi"
  shows "set (bounds_issued (get_appointments_between C self start_date end_date appointment_status_arg) w)
           \<subseteq> {([(''startsOnOrAfter'', lo)], [(''startsBefore'', hi)])}"
    and "appointment_status_arg \<noteq> Some [] \<Longrightarrow>
         bounds_issued (get_appointments_between C self start_date end_date appointment_status_arg) w \<noteq> []"
proof -
  define statuses where
    "statuses = dflt [PStr ''Scheduled'', PStr ''Dispatched'', PStr ''Working'', PStr ''Done''] appointment_status_arg"
  define opts where
    "opts = (\<lambda>st. [(''status'', st), (''startsOnOrAfter'', lo), (''startsBefore'', hi)])"
  from appointments_loop_calls [OF assms opts_def, of statuses "[]" w]
  obtain n where pos: "statuses \<noteq> [] \<longrightarrow> 0 < n"
    and n: "calls (snd (appointments_loop C self start_date end_date statuses [] w)) =
             calls w @ map (\<lambda>st. GetAll (Endpoint ''jpm'' ''appointments'' None (conn self)) (opts st)) (take n statuses)"
    by blast
  have b: "date_bounds (opts st) = ([(''startsOnOrAfter'', lo)], [(''startsBefore'', hi)])" for st
    by (simp add: opts_def date_bounds_def py_endswith_def)
  have eq: "bounds_issued (get_appointments_between C self start_date end_date appointment_status_arg) w
      = map (\<lambda>st. ([(''startsOnOrAfter'', lo)], [(''startsBefore'', hi)])) (take n statuses)"
    by (simp add: bounds_issued_def issued_def get_appointments_between_def statuses_def [symmetric] n b
          comp_def)
  show "set (bounds_issued (get_appointments_between C self start_date end_date appointment_status_arg) w)
           \<subseteq> {([(''startsOnOrAfter'', lo)], [(''startsBefore'', hi)])}"
    unfolding eq by auto
  show "bounds_issued (get_appointments_between C self start_date end_date appointment_status_arg) w \<noteq> []"
    if "appointment_status_arg \<noteq> Some []"
  proof -
    from that have "statuses \<noteq> []" by (cases appointment_status_arg) (simp_all add: statuses_def)
    with pos show ?thesis unfolding eq by simp
  qed
qed

lemma bounds_issued_single:
  "p w = (r, w\<lparr>calls := calls w @ [GetAll ep options]\<rparr>) \<Longrightarrow> bounds_issued p w = [date_bounds options]"
  by (simp add: bounds_issued_def issued_def)

text \<open>
  C3, as stated, fails: the options of \<^verbatim>\<open>get_sold_estimates_between\<close> are
  \<^verbatim>\<open>active\<close>, \<^verbatim>\<open>soldAfter\<close>, \<^verbatim>\<open>soldBefore\<close> and those of \<^verbatim>\<open>get_payments_between\<close>
  are \<^verbatim>\<open>paidOnAfter\<close>, \<^verbatim>\<open>paidOnBefore\<close>: neither has a key of the form
  \<^verbatim>\<open>{field}OnOrAfter\<close>, and the upper bound of payments is \<^verbatim>\<open>paidOnBefore\<close>.
\<close>

theorem sold_estimates_and_payments_have_no_on_or_after_key:
  "issued (get_sold_estimates_between demo_collaborator demo_self (DateStr ''2024-01-01'') (DateStr ''2024-01-31''))
       demo_world
     = [GetAll (Endpoint ''sales'' ''estimates'' None PNone)
          [(''active'', PStr ''True''), (''soldAfter'', PStr ''2024-01-01''), (''soldBefore'', PStr ''2024-01-31'')]]
   \<and> on_or_after_keys
        [(''active'', PStr ''True''), (''soldAfter'', PStr ''2024-01-01''), (''soldBefore'', PStr ''2024-01-31'')] = []
   \<and> issued (get_payments_between demo_collaborator demo_self (DateStr ''2024-01-01'') (DateStr ''2024-01-31''))
       demo_world
     = [GetAll (Endpoint ''accounting'' ''payments'' None PNone)
          [(''paidOnAfter'', PStr ''2024-01-01''), (''paidOnBefore'', PStr ''2024-01-31'')]]
   \<and> on_or_after_keys [(''paidOnAfter'', PStr ''2024-01-01''), (''paidOnBefore'', PStr ''2024-01-31'')] = []
   \<and> before_keys [(''paidOnAfter'', PStr ''2024-01-01''), (''paidOnBefore'', PStr ''2024-01-31'')] = [''paidOnBefore'']"
  by (simp add: run_sold_estimates run_payments issued_def on_or_after_keys_def before_keys_def
        py_endswith_def demo_self_def)

text \<open>
  C3, amended. When the two dates convert, every request of every ``between'' operation
  carries exactly one lower-bound date key (a key ending in \<^verbatim>\<open>After\<close>) and exactly one
  upper-bound date key (a key ending in \<^verbatim>\<open>Before\<close>), the pair fixed per operation, the
  first with the converted start date and the second with the converted end date:
  \<^verbatim>\<open>completedOnOrAfter/completedBefore\<close>, \<^verbatim>\<open>createdOnOrAfter/createdBefore\<close>,
  \<^verbatim>\<open>modifiedOnOrAfter/modifiedBefore\<close>, \<^verbatim>\<open>startsOnOrAfter/startsBefore\<close>,
  \<^verbatim>\<open>soldAfter/soldBefore\<close>, \<^verbatim>\<open>paidOnAfter/paidOnBefore\<close>,
  \<^verbatim>\<open>invoicedOnOrAfter/invoicedOnBefore\<close>. The per-status operations issue at least one
  such request unless the status list is empty.
\<close>

theorem between_operations_pair_of_date_bounds:
  assumes "convert_date_to_api_format C start_date (timezone self) = Inr lo"
      and "convert_date_to_api_format C end_date (timezone self) = Inr hi"
  shows "set (bounds_issued (get_jobs_completed_between C self start_date end_date job_status_arg app_guid) w)
           \<subseteq> {([(''completedOnOrAfter'', lo)], [(''completedBefore'', hi)])}
       \<and> (job_status_arg \<noteq> Some [] \<longrightarrow>
            bounds_issued (get_jobs_completed_between C self start_date end_date job_status_arg app_guid) w \<noteq> [])
       \<and> bounds_issued (get_jobs_created_between C self start_date end_date app_guid) w
           = [([(''createdOnOrAfter'', lo)], [(''createdBefore'', hi)])]
       \<and> bounds_issued (get_jobs_modified_between C self start_date end_date app_guid) w
           = [([(''modifiedOnOrAfter'', lo)], [(''modifiedBefore'', hi)])]
       \<and> set (bounds_issued (get_appointments_between C self start_date end_date appointment_status_arg) w)
           \<subseteq> {([(''startsOnOrAfter'', lo)], [(''startsBefore'', hi)])}
       \<and> (appointment_status_arg \<noteq> Some [] \<longrightarrow>
            bounds_issued (get_appointments_between C self start_date end_date appointment_status_arg) w \<noteq> [])
       \<and> bounds_issued (get_sold_estimates_between C self start_date end_date) w
           = [([(''soldAfter'', lo)], [(''soldBefore'', hi)])]
       \<and> bounds_issued (get_purchase_orders_created_between C self start_date end_date) w
           = [([(''createdOnOrAfter'', lo)], [(''createdBefore'', hi)])]
       \<and> bounds_issued (get_calls_between C self start_date end_date) w
           = [([(''createdOnOrAfter'', lo)], [(''createdBefore'', hi)])]
       \<and> bounds_issued (get_bookings_between C self start_date end_date) w
           = [([(''createdOnOrAfter'', lo)], [(''createdBefore'', hi)])]
       \<and> bounds_issued (get_payments_between C self start_date end_date) w
           = [([(''paidOnAfter'', lo)], [(''paidOnBefore'', hi)])]
       \<and> bounds_issued (get_invoices_between C self start_date end_date) w
           = [([(''invoicedOnOrAfter'', lo)], [(''invoicedOnBefore'', hi)])]"
proof -
  have created: "bounds_issued (get_jobs_created_between C self start_date end_date app_guid) w
           = [([(''createdOnOrAfter'', lo)], [(''createdBefore'', hi)])]"
    by (simp add: bounds_issued_single [OF run_jobs_created [OF assms refl]] date_bounds_def py_endswith_def)
  have modified: "bounds_issued (get_jobs_modified_between C self start_date end_date app_guid) w
           = [([(''modifiedOnOrAfter'', lo)], [(''modifiedBefore'', hi)])]"
    by (simp add: bounds_issued_single [OF run_jobs_modified [OF assms refl]] date_bounds_def py_endswith_def)
  have sold: "bounds_issued (get_sold_estimates_between C self start_date end_date) w
           = [([(''soldAfter'', lo)], [(''soldBefore'', hi)])]"
    by (simp add: bounds_issued_single [OF run_sold_estimates [OF assms]] date_bounds_def py_endswith_def)
  have orders: "bounds_issued (get_purchase_orders_created_between C self start_date end_date) w
           = [([(''createdOnOrAfter'', lo)], [(''createdBefore'', hi)])]"
    by (simp add: bounds_issued_single [OF run_purchase_orders [OF assms]] date_bounds_def py_endswith_def)
  have calls: "bounds_issued (get_calls_between C self start_date end_date) w
           = [([(''createdOnOrAfter'', lo)], [(''createdBefore'', hi)])]"
    by (simp add: bounds_issued_single [OF run_calls [OF assms]] date_bounds_def py_endswith_def)
  have bookings: "bounds_issued (get_bookings_between C self start_date end_date) w
           = [([(''createdOnOrAfter'', lo)], [(''createdBefore'', hi)])]"
    by (simp add: bounds_issued_single [OF run_bookings [OF assms]] date_bounds_def py_endswith_def)
  have payments: "bounds_issued (get_payments_between C self start_date end_date) w
           = [([(''paidOnAfter'', lo)], [(''paidOnBefore'', hi)])]"
    by (simp add: bounds_issued_single [OF run_payments [OF assms]] date_bounds_def py_endswith_def)
  have invoices: "bounds_issued (get_invoices_between C self start_date end_date) w
           = [([(''invoicedOnOrAfter'', lo)], [(''invoicedOnBefore'', hi)])]"
    by (simp add: bounds_issued_single [OF run_invoices [OF assms]] date_bounds_def py_endswith_def)
  from bounds_issued_jobs_completed [OF assms] bounds_issued_appointments [OF assms]
    created modified sold orders calls bookings payments invoices
  show ?thesis by blast
qed

theorem between_operations_pair_of_date_bounds_witness:
  "convert_date_to_api_format demo_collaborator (DateStr ''2024-01-01'') (timezone demo_self) = Inr (PStr ''2024-01-01'')
   \<and> convert_date_to_api_format demo_collaborator (DateStr ''2024-01-31'') (timezone demo_self) = Inr (PStr ''2024-01-31'')
   \<and> bounds_issued (get_sold_estimates_between demo_collaborator demo_self (DateStr ''2024-01-01'') (DateStr ''2024-01-31''))
        demo_world = [([(''soldAfter'', PStr ''2024-01-01'')], [(''soldBefore'', PStr ''2024-01-31'')])]
   \<and> bounds_issued (get_payments_between demo_collaborator demo_self (DateStr ''2024-01-01'') (DateStr ''2024-01-31''))
        demo_world = [([(''paidOnAfter'', PStr ''2024-01-01'')], [(''paidOnBefore'', PStr ''2024-01-31'')])]
   \<and> bounds_issued (get_jobs_created_between demo_collaborator demo_self (DateStr ''2024-01-01'') (DateStr ''2024-01-31'') PNone)
        demo_world = [([(''createdOnOrAfter'', PStr ''2024-01-01'')], [(''createdBefore'', PStr ''2024-01-31'')])]
   \<and> bounds_issued (get_jobs_completed_between demo_collaborator demo_self (DateStr ''2024-01-01'') (DateStr ''2024-01-31'')
        None PNone) demo_world \<noteq> []
   \<and> set (bounds_issued (get_jobs_completed_between demo_collaborator demo_self (DateStr ''2024-01-01'')
        (DateStr ''2024-01-31'') None PNone) demo_world)
        \<subseteq> {([(''completedOnOrAfter'', PStr ''2024-01-01'')], [(''completedBefore'', PStr ''2024-01-31'')])}
   \<and> bounds_issued (get_appointments_between demo_collaborator demo_self (DateStr ''2024-01-01'') (DateStr ''2024-01-31'')
        None) demo_world \<noteq> []"
proof -
  have lo: "convert_date_to_api_format demo_collaborator (DateStr ''2024-01-01'') (timezone demo_self) = Inr (PStr ''2024-01-01'')"
    by simp
  have hi: "convert_date_to_api_format demo_collaborator (DateStr ''2024-01-31'') (timezone demo_self) = Inr (PStr ''2024-01-31'')"
    by simp
  have n: "(None :: pyval list option) \<noteq> Some []" by simp
  note t = between_operations_pair_of_date_bounds [OF lo hi, where w = demo_world and app_guid = PNone
             and job_status_arg = None and appointment_status_arg = None]
  from t n lo hi show ?thesis by blast
qed

section \<open>Total sales\<close>

lemma sum_skus_ints:
  "list_all has_int_total skus \<Longrightarrow>
   sum_skus skus (PInt n) = Inr (PInt (n + sum_list (map item_total skus)))"
proof (induction skus arbitrary: n)
  case Nil
  show ?case by simp
next
  case (Cons sku rest)
  from Cons.prems obtain t where t: "py_getitem sku ''total'' = Inr (PInt t)"
    by (auto simp: has_int_total_def split: sum.splits pyval.splits)
  from Cons.prems have "list_all has_int_total rest" by simp
  from Cons.IH [OF this] t show ?case
    by (simp add: item_total_def)
qed

lemma sum_rows_ints:
  "list_all has_item_list rows \<Longrightarrow>
   sum_rows rows (PInt n) = Inr (PInt (n + sum_of_totals rows))"
proof (induction rows arbitrary: n)
  case Nil
  show ?case by (simp add: sum_of_totals_def)
next
  case (Cons row rest)
  from Cons.prems obtain xs where xs: "py_getitem row ''items'' = Inr (PList xs)"
      and ints: "list_all has_int_total xs"
    by (auto simp: has_item_list_def split: sum.splits pyval.splits)
  from Cons.prems have "list_all has_item_list rest" by simp
  from Cons.IH [OF this] xs sum_skus_ints [OF ints] show ?case
    by (simp add: sum_of_totals_def row_items_def)
qed

lemma lacks_field_getitem: "lacks_field k v \<Longrightarrow> \<exists>e. py_getitem v k = Inl e"
  by (cases v) auto

lemma sum_skus_lacking_total:
  "\<exists>sku \<in> set skus. lacks_field ''total'' sku \<Longrightarrow> \<exists>e. sum_skus skus sales = Inl e"
proof (induction skus arbitrary: sales)
  case Nil
  then show ?case by simp
next
  case (Cons sku rest)
  show ?case
  proof (cases "lacks_field ''total'' sku")
    case True
    from lacks_field_getitem [OF this] show ?thesis by auto
  next
    case False
    with Cons.prems have "\<exists>sku \<in> set rest. lacks_field ''total'' sku" by simp
    from Cons.IH [OF this] show ?thesis
      by (auto split: sum.splits)
  qed
qed

lemma sum_rows_lacking_items:
  "\<exists>row \<in> set rows. lacks_field ''items'' row \<Longrightarrow> \<exists>e. sum_rows rows sales = Inl e"
proof (induction rows arbitrary: sales)
  case Nil
  then show ?case by simp
next
  case (Cons row rest)
  show ?case
  proof (cases "lacks_field ''items'' row")
    case True
    from lacks_field_getitem [OF this] show ?thesis by auto
  next
    case False
    with Cons.prems have "\<exists>row \<in> set rest. lacks_field ''items'' row" by simp
    from Cons.IH [OF this] show ?thesis
      by (auto split: sum.splits)
  qed
qed

lemma sum_rows_lacking_total:
  "\<exists>row \<in> set rows. \<exists>sku \<in> set (row_items row). lacks_field ''total'' sku \<Longrightarrow>
   \<exists>e. sum_rows rows sales = Inl e"
proof (induction rows arbitrary: sales)
  case Nil
  then show ?case by simp
next
  case (Cons row rest)
  show ?case
  proof (cases "\<exists>sku \<in> set (row_items row). lacks_field ''total'' sku")
    case True
    then obtain xs where xs: "py_getitem row ''items'' = Inr (PList xs)"
        and bad: "\<exists>sku \<in> set xs. lacks_field ''total'' sku"
      by (cases "py_getitem row ''items''"; cases "projr (py_getitem row ''items'')")
         (auto simp: row_items_def)
    from sum_skus_lacking_total [OF bad, of sales] xs show ?thesis by auto
  next
    case False
    with Cons.prems have "\<exists>row \<in> set rest. \<exists>sku \<in> set (row_items row). lacks_field ''total'' sku"
      by simp
    from Cons.IH [OF this] show ?thesis
      by (auto split: sum.splits)
  qed
qed

lemma fst_total_sales:
  "fst (get_total_sales_between C self start_date end_date w) =
     (case fst (get_sold_estimates_between C self start_date end_date w) of
        Inl e \<Rightarrow> Inl e
      | Inr rows \<Rightarrow> sum_rows rows (PInt 0))"
  by (simp add: get_total_sales_between_def bind_def lift_def split: prod.splits sum.splits)

lemma add_all_append:
  "add_all acc (xs @ ys) = (case add_all acc xs of Inl e \<Rightarrow> Inl e | Inr acc' \<Rightarrow> add_all acc' ys)"
  by (induction xs arbitrary: acc) (auto split: sum.splits)

lemma sum_skus_add_all:
  "list_all has_total skus \<Longrightarrow> sum_skus skus sales = add_all sales (map item_total_value skus)"
proof (induction skus arbitrary: sales)
  case Nil
  show ?case by simp
next
  case (Cons sku rest)
  from Cons.prems obtain t where t: "py_getitem sku ''total'' = Inr t"
    by (cases "py_getitem sku ''total''") (auto simp: has_total_def)
  from Cons.prems have rest: "list_all has_total rest" by simp
  show ?case
    by (simp add: t item_total_value_def Cons.IH [OF rest] split: sum.splits)
qed

lemma sum_rows_add_all:
  "list_all has_items_with_totals rows \<Longrightarrow> sum_rows rows sales = add_all sales (all_totals rows)"
proof (induction rows arbitrary: sales)
  case Nil
  show ?case by (simp add: all_totals_def)
next
  case (Cons row rest)
  from Cons.prems obtain xs where xs: "py_getitem row ''items'' = Inr (PList xs)"
      and tot: "list_all has_total xs"
    by (cases "py_getitem row ''items''"; cases "projr (py_getitem row ''items'')")
       (auto simp: has_items_with_totals_def)
  from Cons.prems have rest: "list_all has_items_with_totals rest" by simp
  have split: "all_totals (row # rest) = map item_total_value xs @ all_totals rest"
    by (simp add: all_totals_def row_items_def xs)
  show ?case
    by (simp add: xs sum_skus_add_all [OF tot] split add_all_append Cons.IH [OF rest]
          split: sum.splits)
qed

lemma add_all_floats:
  "add_all (PFloat a) (map PFloat fs) = Inr (PFloat (foldl fadd a fs))"
  by (induction fs arbitrary: a) simp_all

lemma add_all_floats_from_0:
  "fs \<noteq> [] \<Longrightarrow> add_all (PInt 0) (map PFloat fs) = Inr (PFloat (foldl fadd (FFinite False 0 0) fs))"
  by (cases fs) (simp_all add: float_of_int_0 add_all_floats)


text \<open>
  C4. On the records \<open>rows\<close> that \<^verbatim>\<open>get_sold_estimates_between\<close> returns,
  \<^verbatim>\<open>get_total_sales_between\<close> returns the sum of \<^verbatim>\<open>total\<close> over every element of
  \<^verbatim>\<open>items\<close> of every record: for totals of any type it is the left-to-right sum
  \<open>add_all\<close> of all the totals starting from the integer 0; for integer totals that is
  their sum, 18 on the two records of the specification's example; for float totals it
  is the float sum from \<^verbatim>\<open>0.0\<close>, rounded after each addition, so \<^verbatim>\<open>0.1\<close> and \<^verbatim>\<open>0.2\<close> give
  \<^verbatim>\<open>0.30000000000000004\<close>. The call raises when a record lacks \<^verbatim>\<open>items\<close> or an item
  lacks \<^verbatim>\<open>total\<close>.
\<close>

theorem total_sales_is_sum_of_item_totals:
  assumes "fst (get_sold_estimates_between C self start_date end_date w) = Inr rows"
  shows "(list_all has_items_with_totals rows \<longrightarrow>
            fst (get_total_sales_between C self start_date end_date w) = add_all (PInt 0) (all_totals rows))
       \<and> (list_all has_item_list rows \<longrightarrow>
            fst (get_total_sales_between C self start_date end_date w) = Inr (PInt (sum_of_totals rows)))
       \<and> (\<forall>fs. list_all has_items_with_totals rows \<longrightarrow> all_totals rows = map PFloat fs \<longrightarrow> fs \<noteq> [] \<longrightarrow>
            fst (get_total_sales_between C self start_date end_date w)
              = Inr (PFloat (foldl fadd (FFinite False 0 0) fs)))
       \<and> (rows = [PDict [(''items'', PList [PDict [(''total'', PInt 10)], PDict [(''total'', PInt 5)]])],
                   PDict [(''items'', PList [PDict [(''total'', PInt 3)]])]] \<longrightarrow>
            fst (get_total_sales_between C self start_date end_date w) = Inr (PInt 18))
       \<and> (rows = [PDict [(''items'', PList [PDict [(''total'', PFloat (FFinite False 3602879701896397 (- 55)))],
                                              PDict [(''total'', PFloat (FFinite False 3602879701896397 (- 54)))]])]] \<longrightarrow>
            fst (get_total_sales_between C self start_date end_date w)
              = Inr (PFloat (FFinite False 1351079888211149 (- 52))))
       \<and> ((\<exists>row \<in> set rows. lacks_field ''items'' row) \<longrightarrow>
            (\<exists>e. fst (get_total_sales_between C self start_date end_date w) = Inl e))
       \<and> ((\<exists>row \<in> set rows. \<exists>sku \<in> set (row_items row). lacks_field ''total'' sku) \<longrightarrow>
            (\<exists>e. fst (get_total_sales_between C self start_date end_date w) = Inl e))"
proof -
  have total: "fst (get_total_sales_between C self start_date end_date w) = sum_rows rows (PInt 0)"
    by (simp add: fst_total_sales assms)
  have general: "list_all has_items_with_totals rows \<longrightarrow>
      fst (get_total_sales_between C self start_date end_date w) = add_all (PInt 0) (all_totals rows)"
    by (simp add: total sum_rows_add_all)
  have ints: "list_all has_item_list rows \<longrightarrow>
      fst (get_total_sales_between C self start_date end_date w) = Inr (PInt (sum_of_totals rows))"
    using sum_rows_ints [of rows 0] by (simp add: total)
  have floats: "\<forall>fs. list_all has_items_with_totals rows \<longrightarrow> all_totals rows = map PFloat fs \<longrightarrow> fs \<noteq> [] \<longrightarrow>
      fst (get_total_sales_between C self start_date end_date w)
        = Inr (PFloat (foldl fadd (FFinite False 0 0) fs))"
    by (simp add: total sum_rows_add_all add_all_floats_from_0)
  have eighteen: "rows = [PDict [(''items'', PList [PDict [(''total'', PInt 10)], PDict [(''total'', PInt 5)]])],
                   PDict [(''items'', PList [PDict [(''total'', PInt 3)]])]] \<longrightarrow>
      fst (get_total_sales_between C self start_date end_date w) = Inr (PInt 18)"
    by (simp add: total)
  have tenths: "rows = [PDict [(''items'', PList [PDict [(''total'', PFloat (FFinite False 3602879701896397 (- 55)))],
                                              PDict [(''total'', PFloat (FFinite False 3602879701896397 (- 54)))]])]] \<longrightarrow>
      fst (get_total_sales_between C self start_date end_date w)
        = Inr (PFloat (FFinite False 1351079888211149 (- 52)))"
    by (simp add: total float_eval)
  have no_items: "(\<exists>row \<in> set rows. lacks_field ''items'' row) \<longrightarrow>
      (\<exists>e. fst (get_total_sales_between C self start_date end_date w) = Inl e)"
    using sum_rows_lacking_items [of rows "PInt 0"] by (simp add: total)
  have no_total: "(\<exists>row \<in> set rows. \<exists>sku \<in> set (row_items row). lacks_field ''total'' sku) \<longrightarrow>
      (\<exists>e. fst (get_total_sales_between C self start_date end_date w) = Inl e)"
    using sum_rows_lacking_total [of rows "PInt 0"] by (simp add: total)
  from general ints floats eighteen tenths no_items no_total show ?thesis by (intro conjI)
qed

theorem total_sales_is_sum_of_item_totals_witness:
  "fst (get_sold_estimates_between demo_collaborator demo_self (DateStr ''2024-01-01'') (DateStr ''2024-01-31'') demo_world)
     = Inr [PDict [(''items'', PList [PDict [(''total'', PInt 10)], PDict [(''total'', PInt 5)]])],
            PDict [(''items'', PList [PDict [(''total'', PInt 3)]])]]
   \<and> list_all has_item_list
        [PDict [(''items'', PList [PDict [(''total'', PInt 10)], PDict [(''total'', PInt 5)]])],
         PDict [(''items'', PList [PDict [(''total'', PInt 3)]])]]
   \<and> sum_of_totals
        [PDict [(''items'', PList [PDict [(''total'', PInt 10)], PDict [(''total'', PInt 5)]])],
         PDict [(''items'', PList [PDict [(''total'', PInt 3)]])]] = 18
   \<and> fst (get_total_sales_between demo_collaborator demo_self (DateStr ''2024-01-01'') (DateStr ''2024-01-31'') demo_world)
     = Inr (PInt 18)
   \<and> fst (get_sold_estimates_between (demo_collaborator\<lparr>get_all := (\<lambda>ep options. Inr [PDict [(''id'', PInt 1)]])\<rparr>)
        demo_self (DateStr ''2024-01-01'') (DateStr ''2024-01-31'') demo_world) = Inr [PDict [(''id'', PInt 1)]]
   \<and> (\<exists>row \<in> set [PDict [(''id'', PInt 1)]]. lacks_field ''items'' row)
   \<and> (\<exists>e. fst (get_total_sales_between (demo_collaborator\<lparr>get_all := (\<lambda>ep options. Inr [PDict [(''id'', PInt 1)]])\<rparr>)
        demo_self (DateStr ''2024-01-01'') (DateStr ''2024-01-31'') demo_world) = Inl e)
   \<and> fst (get_sold_estimates_between
        (demo_collaborator\<lparr>get_all := (\<lambda>ep options. Inr [PDict [(''items'', PList [PDict [(''sku'', PInt 1)]])]])\<rparr>)
        demo_self (DateStr ''2024-01-01'') (DateStr ''2024-01-31'') demo_world)
       = Inr [PDict [(''items'', PList [PDict [(''sku'', PInt 1)]])]]
   \<and> (\<exists>row \<in> set [PDict [(''items'', PList [PDict [(''sku'', PInt 1)]])]].
         \<exists>sku \<in> set (row_items row). lacks_field ''total'' sku)
   \<and> (\<exists>e. fst (get_total_sales_between
        (demo_collaborator\<lparr>get_all := (\<lambda>ep options. Inr [PDict [(''items'', PList [PDict [(''sku'', PInt 1)]])]])\<rparr>)
        demo_self (DateStr ''2024-01-01'') (DateStr ''2024-01-31'') demo_world) = Inl e)
   \<and> fst (get_sold_estimates_between
        (demo_collaborator\<lparr>get_all := (\<lambda>ep options.
           Inr [PDict [(''items'', PList [PDict [(''total'', PFloat (FFinite False 3602879701896397 (- 55)))]])],
                PDict [(''items'', PList [PDict [(''total'', PFloat (FFinite False 3602879701896397 (- 54)))]])]])\<rparr>)
        demo_self (DateStr ''2024-01-01'') (DateStr ''2024-01-31'') demo_world)
       = Inr [PDict [(''items'', PList [PDict [(''total'', PFloat (FFinite False 3602879701896397 (- 55)))]])],
              PDict [(''items'', PList [PDict [(''total'', PFloat (FFinite False 3602879701896397 (- 54)))]])]]
   \<and> list_all has_items_with_totals
        [PDict [(''items'', PList [PDict [(''total'', PFloat (FFinite False 3602879701896397 (- 55)))]])],
         PDict [(''items'', PList [PDict [(''total'', PFloat (FFinite False 3602879701896397 (- 54)))]])]]
   \<and> all_totals
        [PDict [(''items'', PList [PDict [(''total'', PFloat (FFinite False 3602879701896397 (- 55)))]])],
         PDict [(''items'', PList [PDict [(''total'', PFloat (FFinite False 3602879701896397 (- 54)))]])]]
       = map PFloat [FFinite False 3602879701896397 (- 55), FFinite False 3602879701896397 (- 54)]
   \<and> foldl fadd (FFinite False 0 0) [FFinite False 3602879701896397 (- 55), FFinite False 3602879701896397 (- 54)]
       = FFinite False 1351079888211149 (- 52)
   \<and> fst (get_total_sales_between
        (demo_collaborator\<lparr>get_all := (\<lambda>ep options.
           Inr [PDict [(''items'', PList [PDict [(''total'', PFloat (FFinite False 3602879701896397 (- 55)))]])],
                PDict [(''items'', PList [PDict [(''total'', PFloat (FFinite False 3602879701896397 (- 54)))]])]])\<rparr>)
        demo_self (DateStr ''2024-01-01'') (DateStr ''2024-01-31'') demo_world)
       = Inr (PFloat (FFinite False 1351079888211149 (- 52)))"
proof -
  let ?rows = "[PDict [(''items'', PList [PDict [(''total'', PInt 10)], PDict [(''total'', PInt 5)]])],
                PDict [(''items'', PList [PDict [(''total'', PInt 3)]])]]"
  let ?frows = "[PDict [(''items'', PList [PDict [(''total'', PFloat (FFinite False 3602879701896397 (- 55)))]])],
                 PDict [(''items'', PList [PDict [(''total'', PFloat (FFinite False 3602879701896397 (- 54)))]])]]"
  let ?fs = "[FFinite False 3602879701896397 (- 55), FFinite False 3602879701896397 (- 54)]"
  let ?C1 = "demo_collaborator\<lparr>get_all := (\<lambda>ep options. Inr [PDict [(''id'', PInt 1)]])\<rparr>"
  let ?C2 = "demo_collaborator\<lparr>get_all := (\<lambda>ep options. Inr [PDict [(''items'', PList [PDict [(''sku'', PInt 1)]])]])\<rparr>"
  let ?C3 = "demo_collaborator\<lparr>get_all := (\<lambda>ep options. Inr ?frows)\<rparr>"
  let ?s = "DateStr ''2024-01-01''" and ?e = "DateStr ''2024-01-31''"
  have conv: "convert_date_to_api_format ?C1 (DateStr s) tz = Inr (PStr s)"
             "convert_date_to_api_format ?C2 (DateStr s) tz = Inr (PStr s)"
             "convert_date_to_api_format ?C3 (DateStr s) tz = Inr (PStr s)" for s tz
    by (simp_all add: demo_collaborator_def)
  have r0: "fst (get_sold_estimates_between demo_collaborator demo_self ?s ?e demo_world) = Inr ?rows"
    by (simp add: run_sold_estimates demo_collaborator_def demo_get_all_def Endpoint_def)
  have r1: "fst (get_sold_estimates_between ?C1 demo_self ?s ?e demo_world) = Inr [PDict [(''id'', PInt 1)]]"
    by (simp add: run_sold_estimates conv)
  have r2: "fst (get_sold_estimates_between ?C2 demo_self ?s ?e demo_world)
      = Inr [PDict [(''items'', PList [PDict [(''sku'', PInt 1)]])]]"
    by (simp add: run_sold_estimates conv)
  have r3: "fst (get_sold_estimates_between ?C3 demo_self ?s ?e demo_world) = Inr ?frows"
    by (simp add: run_sold_estimates conv)
  have shaped: "list_all has_item_list ?rows"
    by (simp add: has_item_list_def has_int_total_def)
  have total: "sum_of_totals ?rows = 18"
    by (simp add: sum_of_totals_def row_items_def item_total_def)
  have fshaped: "list_all has_items_with_totals ?frows"
    by (simp add: has_items_with_totals_def has_total_def)
  have ftotals: "all_totals ?frows = map PFloat ?fs"
    by (simp add: all_totals_def row_items_def item_total_value_def)
  have fsum: "foldl fadd (FFinite False 0 0) ?fs = FFinite False 1351079888211149 (- 52)"
    by (simp add: float_eval)
  have ne: "?fs \<noteq> []" by simp
  have l1: "\<exists>row \<in> set [PDict [(''id'', PInt 1)]]. lacks_field ''items'' row" by simp
  have l2: "\<exists>row \<in> set [PDict [(''items'', PList [PDict [(''sku'', PInt 1)]])]].
         \<exists>sku \<in> set (row_items row). lacks_field ''total'' sku"
    by (simp add: row_items_def)
  from total_sales_is_sum_of_item_totals [OF r0] shaped total
  have a: "fst (get_total_sales_between demo_collaborator demo_self ?s ?e demo_world) = Inr (PInt 18)"
    by simp
  from total_sales_is_sum_of_item_totals [OF r1] l1
  have b: "\<exists>e. fst (get_total_sales_between ?C1 demo_self ?s ?e demo_world) = Inl e"
    by blast
  from total_sales_is_sum_of_item_totals [OF r2] l2
  have c: "\<exists>e. fst (get_total_sales_between ?C2 demo_self ?s ?e demo_world) = Inl e"
    by blast
  from total_sales_is_sum_of_item_totals [OF r3, THEN conjunct2, THEN conjunct2, THEN conjunct1]
    fshaped ftotals ne
  have "fst (get_total_sales_between ?C3 demo_self ?s ?e demo_world)
      = Inr (PFloat (foldl fadd (FFinite False 0 0) ?fs))"
    by blast
  with fsum have d: "fst (get_total_sales_between ?C3 demo_self ?s ?e demo_world)
      = Inr (PFloat (FFinite False 1351079888211149 (- 52)))"
    by simp
  from r0 shaped total a r1 l1 b r2 l2 c r3 fshaped ftotals fsum d show ?thesis by (intro conjI)
qed

section \<open>API versions\<close>

lemma only_issues_ret: "only_issues Q (ret x)"
  by (simp add: only_issues_def ret_def)

lemma only_issues_lift: "only_issues Q (lift r)"
  by (simp add: only_issues_def lift_def)

lemma only_issues_print: "only_issues Q (print line)"
  by (simp add: only_issues_def print_def)

lemma only_issues_new_dict: "only_issues Q (new_dict d)"
  by (simp add: only_issues_def new_dict_def)

lemma only_issues_read_dict: "only_issues Q (read_dict a)"
  by (simp add: only_issues_def read_dict_def)

lemma only_issues_store_setitem: "only_issues Q (store_setitem a k v)"
  by (simp add: only_issues_def store_setitem_def)

lemma only_issues_convert_date: "only_issues Q (convert_date C self d)"
  by (simp add: convert_date_def only_issues_lift)

lemma only_issues_get_all: "Q (GetAll ep options) \<Longrightarrow> only_issues Q (Endpoint_get_all C ep options)"
  by (simp add: only_issues_def Endpoint_get_all_def)

lemma only_issues_get_one_raw: "Q (GetOneRaw ep i) \<Longrightarrow> only_issues Q (Endpoint_get_one_raw C ep i)"
  by (simp add: only_issues_def Endpoint_get_one_raw_def)

lemma only_issues_update:
  "Q (Update ep i payload request_type) \<Longrightarrow> only_issues Q (Endpoint_update C ep i payload request_type)"
  by (simp add: only_issues_def Endpoint_update_def)

lemma only_issues_bind:
  assumes m: "only_issues Q m" and f: "\<And>x. only_issues Q (f x)"
  shows "only_issues Q (bind m f)"
  unfolding only_issues_def
proof
  fix w
  from m obtain cs where cs: "calls (snd (m w)) = calls w @ cs" "list_all Q cs"
    unfolding only_issues_def by blast
  show "\<exists>cs. calls (snd (bind m f w)) = calls w @ cs \<and> list_all Q cs"
  proof (cases "m w")
    case (Pair r w1)
    show ?thesis
    proof (cases r)
      case (Inl e)
      with Pair cs show ?thesis by (auto simp: bind_def)
    next
      case (Inr x)
      from f [of x] obtain ds where ds: "calls (snd (f x w1)) = calls w1 @ ds" "list_all Q ds"
        unfolding only_issues_def by blast
      from Pair Inr cs ds have "calls (snd (bind m f w)) = calls w @ (cs @ ds)" "list_all Q (cs @ ds)"
        by (auto simp: bind_def)
      then show ?thesis by blast
    qed
  qed
qed

lemmas only_issues_intros =
  only_issues_bind only_issues_ret only_issues_lift only_issues_print only_issues_new_dict
  only_issues_read_dict only_issues_store_setitem only_issues_convert_date
  only_issues_get_all only_issues_get_one_raw only_issues_update

lemma at_version_simps [simp]:
  "at_version v (GetAll (Endpoint f e None c) options) = (v = PInt 2)"
  "at_version v (GetAll (Endpoint f e (Some u) c) options) = (v = u)"
  "at_version v (GetOneRaw (Endpoint f e None c) i) = (v = PInt 2)"
  "at_version v (Update (Endpoint f e None c) i payload t) = (v = PInt 2)"
  by (auto simp: at_version_def Endpoint_def Endpoint_default_version_def)

lemma versions_of_only_issues:
  "only_issues (at_version v) p \<Longrightarrow> set (versions_issued p w) \<subseteq> {v}"
  by (auto simp: only_issues_def versions_issued_def issued_def at_version_def list_all_iff
        dest!: spec [of _ w])

lemma versions_of_single:
  "p w = (r, w\<lparr>calls := calls w @ [c]\<rparr>) \<Longrightarrow> versions_issued p w = [ep_version (call_endpoint c)]"
  by (simp add: versions_issued_def issued_def)

lemma jobs_completed_loop_only_issues:
  "only_issues (at_version (PInt 2)) (jobs_completed_loop C self start_date end_date app_guid statuses data)"
  by (induction statuses arbitrary: data) (auto intro!: only_issues_intros simp: Let_def)

lemma appointments_loop_only_issues:
  "only_issues (at_version (PInt 2)) (appointments_loop C self start_date end_date statuses data)"
  by (induction statuses arbitrary: data) (auto intro!: only_issues_intros simp: Let_def)

lemma v2_get_api_data:
  "only_issues (at_version (dflt (PInt 2) version_arg))
     (get_api_data C self folder endpoint options version_arg)"
  by (cases options) (auto intro!: only_issues_intros simp: get_api_data_def Let_def)

lemma v2_get_api_data_between:
  "only_issues (at_version (dflt (PInt 2) version_arg))
     (get_api_data_between C self folder endpoint start_date end_date modifier_arg options version_arg)"
proof -
  have "only_issues (at_version (dflt (PInt 2) version_arg))
          (get_api_data C self folder endpoint (Some a) (Some (dflt (PInt 2) version_arg)))" for a
    using v2_get_api_data [of "Some (dflt (PInt 2) version_arg)" C self folder endpoint "Some a"] by simp
  then show ?thesis
    by (cases options) (auto intro!: only_issues_intros simp: get_api_data_between_def Let_def)
qed

lemma v2_jobs_completed:
  "only_issues (at_version (PInt 2)) (get_jobs_completed_between C self start_date end_date job_status_arg app_guid)"
  by (simp add: get_jobs_completed_between_def jobs_completed_loop_only_issues)

lemma v2_appointments:
  "only_issues (at_version (PInt 2)) (get_appointments_between C self start_date end_date appointment_status_arg)"
  by (simp add: get_appointments_between_def appointments_loop_only_issues)

lemma v2_jobs_created:
  "only_issues (at_version (PInt 2)) (get_jobs_created_between C self start_date end_date app_guid)"
  by (auto intro!: only_issues_intros simp: get_jobs_created_between_def Let_def)

lemma v2_jobs_modified:
  "only_issues (at_version (PInt 2)) (get_jobs_modified_between C self start_date end_date app_guid)"
  by (auto intro!: only_issues_intros simp: get_jobs_modified_between_def Let_def)

lemma v2_sold_estimates:
  "only_issues (at_version (PInt 2)) (get_sold_estimates_between C self start_date end_date)"
  by (auto intro!: only_issues_intros simp: get_sold_estimates_between_def Let_def)

lemma v2_total_sales:
  "only_issues (at_version (PInt 2)) (get_total_sales_between C self start_date end_date)"
  using v2_sold_estimates
  by (auto intro!: only_issues_intros simp: get_total_sales_between_def)

lemma v2_purchase_orders:
  "only_issues (at_version (PInt 2)) (get_purchase_orders_created_between C self start_date end_date)"
  by (auto intro!: only_issues_intros simp: get_purchase_orders_created_between_def Let_def)

lemma v2_bookings:
  "only_issues (at_version (PInt 2)) (get_bookings_between C self start_date end_date)"
  by (auto intro!: only_issues_intros simp: get_bookings_between_def Let_def)

lemma v2_payments:
  "only_issues (at_version (PInt 2)) (get_payments_between C self start_date end_date)"
  by (auto intro!: only_issues_intros simp: get_payments_between_def Let_def)

lemma v2_invoices:
  "only_issues (at_version (PInt 2)) (get_invoices_between C self start_date end_date)"
  by (auto intro!: only_issues_intros simp: get_invoices_between_def Let_def)

lemma v2_invoices_by_id:
  "only_issues (at_version (PInt 2)) (get_invoices_by_id C self ids)"
  by (auto intro!: only_issues_intros simp: get_invoices_by_id_def Let_def)

lemma v2_payments_for_invoices:
  "only_issues (at_version (PInt 2)) (get_payments_for_invoices C self ids)"
  by (auto intro!: only_issues_intros simp: get_payments_for_invoices_def Let_def)

lemma v3_calls:
  "only_issues (at_version (PStr ''3'')) (get_calls_between C self start_date end_date)"
  by (auto intro!: only_issues_intros simp: get_calls_between_def Let_def)

lemma versions_single_ops:
  "versions_issued (get_employees C self active_arg) w = [PInt 2]"
  "versions_issued (get_technicians C self active_arg) w = [PInt 2]"
  "versions_issued (get_tag_types C self active_arg) w = [PInt 2]"
  "versions_issued (get_business_units C self active_arg) w = [PInt 2]"
  "versions_issued (get_job_types C self active_arg) w = [PInt 2]"
  "versions_issued (get_estimates_by_job_id C self job_id) w = [PInt 2]"
  "versions_issued (get_appointment_assignments_by_job_id C self job_id) w = [PInt 2]"
  "versions_issued (get_technician_by_id C self tech_id) w = [PInt 2]"
  "versions_issued (get_all_technicians C self) w = [PInt 2]"
  "versions_issued (get_all_tag_types C self) w = [PInt 2]"
  "versions_issued (get_attachment C self attach_id) w = [PInt 2]"
  "versions_issued (patch_job_external_data C self job_id data_payload external_guid patch_mode_arg) w = [PInt 2]"
  by (simp_all add: versions_issued_def issued_def get_employees_def get_technicians_def get_tag_types_def
        get_business_units_def get_job_types_def get_estimates_by_job_id_def
        get_appointment_assignments_by_job_id_def run_technician_by_id get_all_technicians_def
        get_all_tag_types_def get_attachment_def patch_job_external_data_def
        Let_def Endpoint_get_all_def Endpoint_get_one_raw_def Endpoint_update_def bind_def ret_def
        Endpoint_def Endpoint_default_version_def split: sum.splits)

lemma run_payments_for_invoices_strs:
  "list_all is_str ids \<Longrightarrow>
   get_payments_for_invoices C self ids w =
     (get_all C (Endpoint ''accounting'' ''payments'' None (conn self))
        [(''appliedToInvoiceIds'', PStr (intercalate '','' (map str_val ids)))],
      w\<lparr>calls := calls w @ [GetAll (Endpoint ''accounting'' ''payments'' None (conn self))
        [(''appliedToInvoiceIds'', PStr (intercalate '','' (map str_val ids)))]]\<rparr>)"
  by (simp add: get_payments_for_invoices_def bind_def lift_def py_join_def Endpoint_get_all_def)

lemma calls_total_sales:
  "calls (snd (get_total_sales_between C self start_date end_date w)) =
   calls (snd (get_sold_estimates_between C self start_date end_date w))"
  by (simp add: get_total_sales_between_def bind_def lift_def split: prod.splits sum.splits)

lemma versions_nonempty_of_bounds:
  "bounds_issued p w \<noteq> [] \<Longrightarrow> versions_issued p w \<noteq> []"
  by (simp add: bounds_issued_def versions_issued_def)

lemma set_singleton_of_subset: "set xs \<subseteq> {v} \<Longrightarrow> xs \<noteq> [] \<Longrightarrow> set xs = {v}"
  by (cases xs) auto

lemma versions_between_ops:
  assumes "convert_date_to_api_format C start_date (timezone self) = Inr lo"
      and "convert_date_to_api_format C end_date (timezone self) = Inr hi"
  shows "versions_issued (get_api_data_between C self folder endpoint start_date end_date modifier_arg options None) w
           = [PInt 2]"
    and "versions_issued (get_jobs_created_between C self start_date end_date app_guid) w = [PInt 2]"
    and "versions_issued (get_jobs_modified_between C self start_date end_date app_guid) w = [PInt 2]"
    and "versions_issued (get_sold_estimates_between C self start_date end_date) w = [PInt 2]"
    and "versions_issued (get_total_sales_between C self start_date end_date) w = [PInt 2]"
    and "versions_issued (get_purchase_orders_created_between C self start_date end_date) w = [PInt 2]"
    and "versions_issued (get_bookings_between C self start_date end_date) w = [PInt 2]"
    and "versions_issued (get_payments_between C self start_date end_date) w = [PInt 2]"
    and "versions_issued (get_invoices_between C self start_date end_date) w = [PInt 2]"
    and "job_status_arg \<noteq> Some [] \<Longrightarrow>
         set (versions_issued (get_jobs_completed_between C self start_date end_date job_status_arg app_guid) w)
           = {PInt 2}"
    and "appointment_status_arg \<noteq> Some [] \<Longrightarrow>
         set (versions_issued (get_appointments_between C self start_date end_date appointment_status_arg) w)
           = {PInt 2}"
proof -
  note e = Endpoint_def Endpoint_default_version_def versions_issued_def issued_def
  show "versions_issued (get_api_data_between C self folder endpoint start_date end_date modifier_arg options None) w
           = [PInt 2]"
    by (cases options)
       (simp_all add: e run_get_api_data_between_Some [OF assms] run_get_api_data_between_None [OF assms]
          run_get_api_data_Some)
  show "versions_issued (get_jobs_created_between C self start_date end_date app_guid) w = [PInt 2]"
    by (simp add: e run_jobs_created [OF assms refl])
  show "versions_issued (get_jobs_modified_between C self start_date end_date app_guid) w = [PInt 2]"
    by (simp add: e run_jobs_modified [OF assms refl])
  show "versions_issued (get_sold_estimates_between C self start_date end_date) w = [PInt 2]"
    by (simp add: e run_sold_estimates [OF assms])
  show "versions_issued (get_total_sales_between C self start_date end_date) w = [PInt 2]"
    by (simp add: e calls_total_sales run_sold_estimates [OF assms])
  show "versions_issued (get_purchase_orders_created_between C self start_date end_date) w = [PInt 2]"
    by (simp add: e run_purchase_orders [OF assms])
  show "versions_issued (get_bookings_between C self start_date end_date) w = [PInt 2]"
    by (simp add: e run_bookings [OF assms])
  show "versions_issued (get_payments_between C self start_date end_date) w = [PInt 2]"
    by (simp add: e run_payments [OF assms])
  show "versions_issued (get_invoices_between C self start_date end_date) w = [PInt 2]"
    by (simp add: e run_invoices [OF assms])
  show "set (versions_issued (get_jobs_completed_between C self start_date end_date job_status_arg app_guid) w)
           = {PInt 2}" if "job_status_arg \<noteq> Some []"
    by (rule set_singleton_of_subset [OF versions_of_only_issues [OF v2_jobs_completed]
          versions_nonempty_of_bounds [OF bounds_issued_jobs_completed(2) [OF assms that]]])
  show "set (versions_issued (get_appointments_between C self start_date end_date appointment_status_arg) w)
           = {PInt 2}" if "appointment_status_arg \<noteq> Some []"
    by (rule set_singleton_of_subset [OF versions_of_only_issues [OF v2_appointments]
          versions_nonempty_of_bounds [OF bounds_issued_appointments(2) [OF assms that]]])
qed

lemma versions_id_list_ops:
  assumes "list_all is_str ids"
  shows "versions_issued (get_invoices_by_id C self ids) w = [PInt 2]"
    and "versions_issued (get_payments_for_invoices C self ids) w = [PInt 2]"
  by (simp_all add: versions_issued_def issued_def run_invoices_by_id_strs [OF assms]
        run_payments_for_invoices_strs [OF assms] Endpoint_def Endpoint_default_version_def)

text \<open>
  C7. \<^verbatim>\<open>get_calls_between\<close> issues its request against the version \<^verbatim>\<open>"3"\<close> (passed as a
  string, which renders as the integer 3 does): every request it issues goes there, and
  it issues one when the dates convert. Every other operation, called without a version,
  issues its request against version 2: every request it issues goes there, and it does
  issue one (the single-request operations always; the date-range operations when the
  dates convert, the per-status ones unless the status list is empty; the id-list
  operations when the ids are strings). For \<^verbatim>\<open>get_api_data\<close> and
  \<^verbatim>\<open>get_api_data_between\<close> the 2 is the default of their own \<^verbatim>\<open>version\<close> parameter;
  for the others it is the default of \<^verbatim>\<open>Endpoint\<close>'s constructor.
\<close>

theorem calls_between_uses_version_3_others_version_2:
  "set (versions_issued (get_calls_between C self start_date end_date) w) \<subseteq> {PStr ''3''}
   \<and> (\<forall>lo hi. convert_date_to_api_format C start_date (timezone self) = Inr lo
          \<longrightarrow> convert_date_to_api_format C end_date (timezone self) = Inr hi
          \<longrightarrow> versions_issued (get_calls_between C self start_date end_date) w = [PStr ''3''])
   \<and> py_str (PStr ''3'') = py_str (PInt 3)
   \<and> py_str (PStr ''3'') \<noteq> py_str (PInt 2)
   \<and> versions_issued (get_api_data C self folder endpoint options None) w = [PInt 2]
   \<and> set (versions_issued (get_api_data_between C self folder endpoint start_date end_date modifier_arg options None) w)
        \<subseteq> {PInt 2}
   \<and> set (versions_issued (get_jobs_completed_between C self start_date end_date job_status_arg app_guid) w) \<subseteq> {PInt 2}
   \<and> set (versions_issued (get_jobs_created_between C self start_date end_date app_guid) w) \<subseteq> {PInt 2}
   \<and> set (versions_issued (get_jobs_modified_between C self start_date end_date app_guid) w) \<subseteq> {PInt 2}
   \<and> set (versions_issued (get_appointments_between C self start_date end_date appointment_status_arg) w) \<subseteq> {PInt 2}
   \<and> set (versions_issued (get_sold_estimates_between C self start_date end_date) w) \<subseteq> {PInt 2}
   \<and> set (versions_issued (get_total_sales_between C self start_date end_date) w) \<subseteq> {PInt 2}
   \<and> set (versions_issued (get_purchase_orders_created_between C self start_date end_date) w) \<subseteq> {PInt 2}
   \<and> set (versions_issued (get_bookings_between C self start_date end_date) w) \<subseteq> {PInt 2}
   \<and> set (versions_issued (get_payments_between C self start_date end_date) w) \<subseteq> {PInt 2}
   \<and> set (versions_issued (get_invoices_between C self start_date end_date) w) \<subseteq> {PInt 2}
   \<and> set (versions_issued (get_invoices_by_id C self ids) w) \<subseteq> {PInt 2}
   \<and> set (versions_issued (get_payments_for_invoices C self ids) w) \<subseteq> {PInt 2}
   \<and> versions_issued (get_employees C self active_arg) w = [PInt 2]
   \<and> versions_issued (get_technicians C self active_arg) w = [PInt 2]
   \<and> versions_issued (get_tag_types C self active_arg) w = [PInt 2]
   \<and> versions_issued (get_business_units C self active_arg) w = [PInt 2]
   \<and> versions_issued (get_job_types C self active_arg) w = [PInt 2]
   \<and> versions_issued (get_estimates_by_job_id C self job_id) w = [PInt 2]
   \<and> versions_issued (get_appointment_assignments_by_job_id C self job_id) w = [PInt 2]
   \<and> versions_issued (get_technician_by_id C self tech_id) w = [PInt 2]
   \<and> versions_issued (get_all_technicians C self) w = [PInt 2]
   \<and> versions_issued (get_all_tag_types C self) w = [PInt 2]
   \<and> versions_issued (get_attachment C self attach_id) w = [PInt 2]
   \<and> versions_issued (patch_job_external_data C self job_id data_payload external_guid patch_mode_arg) w = [PInt 2]
   \<and> (\<forall>lo hi. convert_date_to_api_format C start_date (timezone self) = Inr lo
          \<longrightarrow> convert_date_to_api_format C end_date (timezone self) = Inr hi
          \<longrightarrow> versions_issued (get_api_data_between C self folder endpoint start_date end_date modifier_arg
                 options None) w = [PInt 2]
            \<and> versions_issued (get_jobs_created_between C self start_date end_date app_guid) w = [PInt 2]
            \<and> versions_issued (get_jobs_modified_between C self start_date end_date app_guid) w = [PInt 2]
            \<and> versions_issued (get_sold_estimates_between C self start_date end_date) w = [PInt 2]
            \<and> versions_issued (get_total_sales_between C self start_date end_date) w = [PInt 2]
            \<and> versions_issued (get_purchase_orders_created_between C self start_date end_date) w = [PInt 2]
            \<and> versions_issued (get_bookings_between C self start_date end_date) w = [PInt 2]
            \<and> versions_issued (get_payments_between C self start_date end_date) w = [PInt 2]
            \<and> versions_issued (get_invoices_between C self start_date end_date) w = [PInt 2]
            \<and> (job_status_arg \<noteq> Some [] \<longrightarrow>
                 set (versions_issued (get_jobs_completed_between C self start_date end_date job_status_arg
                        app_guid) w) = {PInt 2})
            \<and> (appointment_status_arg \<noteq> Some [] \<longrightarrow>
                 set (versions_issued (get_appointments_between C self start_date end_date
                        appointment_status_arg) w) = {PInt 2}))
   \<and> (list_all is_str ids \<longrightarrow>
          versions_issued (get_invoices_by_id C self ids) w = [PInt 2]
        \<and> versions_issued (get_payments_for_invoices C self ids) w = [PInt 2])"
proof -
  have calls3: "versions_issued (get_calls_between C self start_date end_date) w = [PStr ''3'']"
    if "convert_date_to_api_format C start_date (timezone self) = Inr lo"
      and "convert_date_to_api_format C end_date (timezone self) = Inr hi" for lo hi
    by (simp add: versions_issued_def issued_def run_calls [OF that] Endpoint_def)
  have str: "py_str (PStr ''3'') = py_str (PInt 3)" "py_str (PStr ''3'') \<noteq> py_str (PInt 2)"
    by (simp_all add: str_nat.simps digit_char_def)
  have raw: "versions_issued (get_api_data C self folder endpoint options None) w = [PInt 2]"
    by (cases options)
       (simp_all add: versions_issued_def issued_def run_get_api_data_None run_get_api_data_Some
          Endpoint_def)
  have calls3': "\<forall>lo hi. convert_date_to_api_format C start_date (timezone self) = Inr lo
          \<longrightarrow> convert_date_to_api_format C end_date (timezone self) = Inr hi
          \<longrightarrow> versions_issued (get_calls_between C self start_date end_date) w = [PStr ''3'']"
    using calls3 by blast
  have between: "\<forall>lo hi. convert_date_to_api_format C start_date (timezone self) = Inr lo
          \<longrightarrow> convert_date_to_api_format C end_date (timezone self) = Inr hi
          \<longrightarrow> versions_issued (get_api_data_between C self folder endpoint start_date end_date modifier_arg
                 options None) w = [PInt 2]
            \<and> versions_issued (get_jobs_created_between C self start_date end_date app_guid) w = [PInt 2]
            \<and> versions_issued (get_jobs_modified_between C self start_date end_date app_guid) w = [PInt 2]
            \<and> versions_issued (get_sold_estimates_between C self start_date end_date) w = [PInt 2]
            \<and> versions_issued (get_total_sales_between C self start_date end_date) w = [PInt 2]
            \<and> versions_issued (get_purchase_orders_created_between C self start_date end_date) w = [PInt 2]
            \<and> versions_issued (get_bookings_between C self start_date end_date) w = [PInt 2]
            \<and> versions_issued (get_payments_between C self start_date end_date) w = [PInt 2]
            \<and> versions_issued (get_invoices_between C self start_date end_date) w = [PInt 2]
            \<and> (job_status_arg \<noteq> Some [] \<longrightarrow>
                 set (versions_issued (get_jobs_completed_between C self start_date end_date job_status_arg
                        app_guid) w) = {PInt 2})
            \<and> (appointment_status_arg \<noteq> Some [] \<longrightarrow>
                 set (versions_issued (get_appointments_between C self start_date end_date
                        appointment_status_arg) w) = {PInt 2})"
  proof (intro allI impI)
    fix lo hi
    assume lo: "convert_date_to_api_format C start_date (timezone self) = Inr lo"
       and hi: "convert_date_to_api_format C end_date (timezone self) = Inr hi"
    note b = versions_between_ops [OF lo hi]
    show "versions_issued (get_api_data_between C self folder endpoint start_date end_date modifier_arg
                 options None) w = [PInt 2]
            \<and> versions_issued (get_jobs_created_between C self start_date end_date app_guid) w = [PInt 2]
            \<and> versions_issued (get_jobs_modified_between C self start_date end_date app_guid) w = [PInt 2]
            \<and> versions_issued (get_sold_estimates_between C self start_date end_date) w = [PInt 2]
            \<and> versions_issued (get_total_sales_between C self start_date end_date) w = [PInt 2]
            \<and> versions_issued (get_purchase_orders_created_between C self start_date end_date) w = [PInt 2]
            \<and> versions_issued (get_bookings_between C self start_date end_date) w = [PInt 2]
            \<and> versions_issued (get_payments_between C self start_date end_date) w = [PInt 2]
            \<and> versions_issued (get_invoices_between C self start_date end_date) w = [PInt 2]
            \<and> (job_status_arg \<noteq> Some [] \<longrightarrow>
                 set (versions_issued (get_jobs_completed_between C self start_date end_date job_status_arg
                        app_guid) w) = {PInt 2})
            \<and> (appointment_status_arg \<noteq> Some [] \<longrightarrow>
                 set (versions_issued (get_appointments_between C self start_date end_date
                        appointment_status_arg) w) = {PInt 2})"
      by (intro conjI impI b) assumption+
  qed
  have id_lists: "list_all is_str ids \<longrightarrow>
          versions_issued (get_invoices_by_id C self ids) w = [PInt 2]
        \<and> versions_issued (get_payments_for_invoices C self ids) w = [PInt 2]"
    by (simp add: versions_id_list_ops)
  note v = versions_of_only_issues
  show ?thesis
    by (intro conjI calls3' str raw versions_single_ops between id_lists
          v [OF v3_calls] v [OF v2_get_api_data_between [where version_arg = None, simplified]]
          v [OF v2_jobs_completed] v [OF v2_jobs_created] v [OF v2_jobs_modified]
          v [OF v2_appointments] v [OF v2_sold_estimates] v [OF v2_total_sales]
          v [OF v2_purchase_orders] v [OF v2_bookings] v [OF v2_payments] v [OF v2_invoices]
          v [OF v2_invoices_by_id] v [OF v2_payments_for_invoices])
qed

theorem calls_between_uses_version_3_others_version_2_witness:
  "convert_date_to_api_format demo_collaborator (DateStr ''2024-01-01'') (timezone demo_self) = Inr (PStr ''2024-01-01'')
   \<and> convert_date_to_api_format demo_collaborator (DateStr ''2024-01-31'') (timezone demo_self) = Inr (PStr ''2024-01-31'')
   \<and> versions_issued (get_calls_between demo_collaborator demo_self (DateStr ''2024-01-01'') (DateStr ''2024-01-31''))
         demo_world = [PStr ''3'']
   \<and> versions_issued (get_job_types demo_collaborator demo_self None) demo_world = [PInt 2]
   \<and> versions_issued (get_bookings_between demo_collaborator demo_self (DateStr ''2024-01-01'') (DateStr ''2024-01-31''))
         demo_world = [PInt 2]
   \<and> set (versions_issued (get_jobs_completed_between demo_collaborator demo_self (DateStr ''2024-01-01'')
         (DateStr ''2024-01-31'') None PNone) demo_world) = {PInt 2}
   \<and> set (versions_issued (get_appointments_between demo_collaborator demo_self (DateStr ''2024-01-01'')
         (DateStr ''2024-01-31'') None) demo_world) = {PInt 2}
   \<and> list_all is_str [PStr ''1'', PStr ''2'']
   \<and> versions_issued (get_payments_for_invoices demo_collaborator demo_self [PStr ''1'', PStr ''2'']) demo_world
       = [PInt 2]"
proof -
  have lo: "convert_date_to_api_format demo_collaborator (DateStr ''2024-01-01'') (timezone demo_self) = Inr (PStr ''2024-01-01'')"
    by simp
  have hi: "convert_date_to_api_format demo_collaborator (DateStr ''2024-01-31'') (timezone demo_self) = Inr (PStr ''2024-01-31'')"
    by simp
  have strs: "list_all is_str [PStr ''1'', PStr ''2'']" by simp
  have n: "(None :: pyval list option) \<noteq> Some []" by simp
  note t = calls_between_uses_version_3_others_version_2
             [where C = demo_collaborator and self = demo_self and start_date = "DateStr ''2024-01-01''"
                and end_date = "DateStr ''2024-01-31''" and w = demo_world and active_arg = None
                and ids = "[PStr ''1'', PStr ''2'']" and job_status_arg = None
                and appointment_status_arg = None and app_guid = PNone]
  from t [THEN conjunct2, THEN conjunct1] lo hi
  have a: "versions_issued (get_calls_between demo_collaborator demo_self (DateStr ''2024-01-01'')
      (DateStr ''2024-01-31'')) demo_world = [PStr ''3'']"
    by blast
  from t have b: "versions_issued (get_job_types demo_collaborator demo_self None) demo_world = [PInt 2]"
    by simp
  from t have between: "\<forall>lo hi.
      convert_date_to_api_format demo_collaborator (DateStr ''2024-01-01'') (timezone demo_self) = Inr lo \<longrightarrow>
      convert_date_to_api_format demo_collaborator (DateStr ''2024-01-31'') (timezone demo_self) = Inr hi \<longrightarrow>
        versions_issued (get_bookings_between demo_collaborator demo_self (DateStr ''2024-01-01'')
          (DateStr ''2024-01-31'')) demo_world = [PInt 2]
      \<and> (None \<noteq> Some [] \<longrightarrow>
           set (versions_issued (get_jobs_completed_between demo_collaborator demo_self (DateStr ''2024-01-01'')
             (DateStr ''2024-01-31'') None PNone) demo_world) = {PInt 2})
      \<and> ((None :: pyval list option) \<noteq> Some [] \<longrightarrow>
           set (versions_issued (get_appointments_between demo_collaborator demo_self (DateStr ''2024-01-01'')
             (DateStr ''2024-01-31'') None) demo_world) = {PInt 2})"
    by blast
  from between lo hi n
  have c: "versions_issued (get_bookings_between demo_collaborator demo_self (DateStr ''2024-01-01'')
          (DateStr ''2024-01-31'')) demo_world = [PInt 2]"
    and d: "set (versions_issued (get_jobs_completed_between demo_collaborator demo_self (DateStr ''2024-01-01'')
             (DateStr ''2024-01-31'') None PNone) demo_world) = {PInt 2}"
    and e: "set (versions_issued (get_appointments_between demo_collaborator demo_self (DateStr ''2024-01-01'')
             (DateStr ''2024-01-31'') None) demo_world) = {PInt 2}"
    by blast+
  from t strs
  have f: "versions_issued (get_payments_for_invoices demo_collaborator demo_self [PStr ''1'', PStr ''2'']) demo_world
       = [PInt 2]"
    by blast
  from lo hi a b c d e strs f show ?thesis by (intro conjI)
qed

end
